theory Spec2Isabelle
  imports Main "HOL-Library.Word" "HOL-Library.AList"
begin

unbundle bit_operations_syntax

section \<open>Python values and primitives used by turtlemint_server.py\<close>

text \<open>
  The server works on the objects that \<^verbatim>\<open>json.loads\<close> and \<^verbatim>\<open>resp.json()\<close> return and on
  the keyword arguments of a tool call. They are modelled by one datatype of Python
  values: \<open>JNull\<close> is \<^verbatim>\<open>None\<close>, a \<^verbatim>\<open>float\<close> is given by its 64 bits, a \<^verbatim>\<open>dict\<close> is an
  association list in insertion order (its keys are strings, as in every JSON object).
  A Python \<^verbatim>\<open>str\<close> is a \<open>string\<close>: a list of characters with codes below 256.
\<close>

datatype json =
    JNull
  | JBool bool
  | JInt int
  | JFloat "64 word"
  | JStr string
  | JArr "json list"
  | JObj "(string \<times> json) list"

text \<open>
  Exceptions are values. \<open>ValueError\<close> is an exception of exactly that class;
  \<open>JSONDecodeError\<close> is \<^verbatim>\<open>json.JSONDecodeError\<close>, a subclass of \<^verbatim>\<open>ValueError\<close>;
  \<open>RequestException\<close> stands for the exceptions of the \<^verbatim>\<open>requests\<close> package that are no
  \<^verbatim>\<open>ValueError\<close>; \<open>RequestsJSONDecodeError\<close> is \<^verbatim>\<open>requests.exceptions.JSONDecodeError\<close>, a
  subclass of both \<^verbatim>\<open>RequestException\<close> and \<^verbatim>\<open>ValueError\<close>; \<open>OtherError\<close> is any exception of
  a library that belongs to none of these classes. Each carries the text that \<^verbatim>\<open>str(e)\<close>
  gives, where the server reads it.
\<close>

datatype py_error =
    KeyError string
  | IndexError
  | TypeError
  | AttributeError
  | ValueError string
  | JSONDecodeError string
  | RecursionError
  | RuntimeError string
  | RequestException string
  | RequestsJSONDecodeError string
  | OtherError string

text \<open>\<^verbatim>\<open>except requests.RequestException as e\<close>: the message of \<open>e\<close> when the clause catches it.\<close>

fun as_request_exception :: "py_error \<Rightarrow> string option" where
  "as_request_exception (RequestException m) = Some m"
| "as_request_exception (RequestsJSONDecodeError m) = Some m"
| "as_request_exception _ = None"


subsection \<open>Strings\<close>

text \<open>\<^verbatim>\<open>s.startswith(p)\<close>.\<close>

fun startswith :: "string \<Rightarrow> string \<Rightarrow> bool" where
  "startswith s [] = True"
| "startswith [] (p # ps) = False"
| "startswith (c # cs) (p # ps) = (c = p \<and> startswith cs ps)"

text \<open>
  \<^verbatim>\<open>s.find(sub)\<close>: the lowest index at which \<open>sub\<close> occurs in \<open>s\<close>; \<open>None\<close> is Python's \<open>-1\<close>.
  \<^verbatim>\<open>s.find(sub, start)\<close> searches \<open>s[start:]\<close> and counts from the beginning of \<open>s\<close>.
\<close>

fun find_sub :: "string \<Rightarrow> string \<Rightarrow> nat option" where
  "find_sub [] sub = (if sub = [] then Some 0 else None)"
| "find_sub (c # cs) sub =
     (if startswith (c # cs) sub then Some 0 else map_option Suc (find_sub cs sub))"

definition py_find :: "string \<Rightarrow> string \<Rightarrow> nat \<Rightarrow> nat option" where
  "py_find s sub start =
     (if length s < start then None
      else map_option (\<lambda>i. start + i) (find_sub (drop start s) sub))"

text \<open>\<^verbatim>\<open>sub in s\<close> for two strings.\<close>

definition str_contains :: "string \<Rightarrow> string \<Rightarrow> bool" where
  "str_contains s sub = (find_sub s sub \<noteq> None)"

text \<open>
  \<^verbatim>\<open>s.replace(old, new)\<close>: every occurrence of \<open>old\<close>, found from left to right without
  overlap, becomes \<open>new\<close>. For an empty \<open>old\<close> Python puts \<open>new\<close> before every character and
  at the end.
\<close>

function replace_all :: "string \<Rightarrow> string \<Rightarrow> string \<Rightarrow> string" where
  "replace_all s old new =
     (if old = [] \<or> s = [] then s
      else if startswith s old then new @ replace_all (drop (length old) s) old new
      else hd s # replace_all (tl s) old new)"
  by pat_completeness auto
termination
  by (relation "measure (\<lambda>(s, old, new). length s)") (auto simp: neq_Nil_conv)

definition py_replace :: "string \<Rightarrow> string \<Rightarrow> string \<Rightarrow> string" where
  "py_replace s old new =
     (if old = [] then new @ concat (map (\<lambda>c. c # new) s) else replace_all s old new)"

text \<open>\<^verbatim>\<open>s.strip(c)\<close> for a one-character argument.\<close>

definition py_strip :: "string \<Rightarrow> char \<Rightarrow> string" where
  "py_strip s c = rev (dropWhile (\<lambda>x. x = c) (rev (dropWhile (\<lambda>x. x = c) s)))"

text \<open>
  \<^verbatim>\<open>s.lower()\<close>. Of the characters with codes below 256 the capitals are \<open>A\<close> to \<open>Z\<close> and
  the Latin-1 letters U+00C0 to U+00DE, without the sign U+00D7; the small letter of
  each is 32 further. Every other character is left as it is.
\<close>

definition lower_char :: "char \<Rightarrow> char" where
  "lower_char c =
     (let n = of_char c :: nat
      in if (65 \<le> n \<and> n \<le> 90) \<or> (192 \<le> n \<and> n \<le> 214) \<or> (216 \<le> n \<and> n \<le> 222)
         then char_of (n + 32) else c)"

definition py_lower :: "string \<Rightarrow> string" where
  "py_lower s = map lower_char s"

text \<open>
  \<^verbatim>\<open>s.isdigit()\<close>, \<^verbatim>\<open>s.isidentifier()\<close> and \<^verbatim>\<open>keyword.iskeyword(s)\<close>, which
  \<^verbatim>\<open>inspect.Parameter\<close> applies to a name. Of the characters with codes below 256 the
  digits are \<open>0\<close> to \<open>9\<close> and the superscripts U+00B2, U+00B3 and U+00B9; an identifier
  starts with a letter or \<open>_\<close> and goes on with letters, \<open>_\<close>, the digits \<open>0\<close> to \<open>9\<close> and
  U+00B7.
\<close>

definition digit_char :: "char \<Rightarrow> bool" where
  "digit_char c =
     (let n = of_char c :: nat in (48 \<le> n \<and> n \<le> 57) \<or> n = 178 \<or> n = 179 \<or> n = 185)"

definition py_isdigit :: "string \<Rightarrow> bool" where
  "py_isdigit s = (s \<noteq> [] \<and> list_all digit_char s)"

definition xid_start :: "char \<Rightarrow> bool" where
  "xid_start c =
     (let n = of_char c :: nat
      in (65 \<le> n \<and> n \<le> 90) \<or> n = 95 \<or> (97 \<le> n \<and> n \<le> 122)
         \<or> n = 170 \<or> n = 181 \<or> n = 186
         \<or> (192 \<le> n \<and> n \<le> 214) \<or> (216 \<le> n \<and> n \<le> 246) \<or> 248 \<le> n)"

definition xid_continue :: "char \<Rightarrow> bool" where
  "xid_continue c =
     (let n = of_char c :: nat in xid_start c \<or> (48 \<le> n \<and> n \<le> 57) \<or> n = 183)"

definition py_isidentifier :: "string \<Rightarrow> bool" where
  "py_isidentifier s =
     (case s of [] \<Rightarrow> False | c # cs \<Rightarrow> xid_start c \<and> list_all xid_continue cs)"

definition kwlist :: "string list" where
  "kwlist =
     [''False'', ''None'', ''True'', ''and'', ''as'', ''assert'', ''async'', ''await'',
      ''break'', ''class'', ''continue'', ''def'', ''del'', ''elif'', ''else'', ''except'',
      ''finally'', ''for'', ''from'', ''global'', ''if'', ''import'', ''in'', ''is'',
      ''lambda'', ''nonlocal'', ''not'', ''or'', ''pass'', ''raise'', ''return'', ''try'',
      ''while'', ''with'', ''yield'']"

definition iskeyword :: "string \<Rightarrow> bool" where
  "iskeyword s = (s \<in> set kwlist)"

subsection \<open>The libraries the server calls\<close>

text \<open>
  What a request of the \<^verbatim>\<open>requests\<close> package is called with, and the parts of its
  response that the server reads: \<open>status_code\<close> is the status of the response and
  \<open>http_error_text\<close> the text of the \<^verbatim>\<open>HTTPError\<close> that \<^verbatim>\<open>raise_for_status()\<close> makes of it (it
  names the status, the reason and the URL); \<open>content_type\<close> is
  \<^verbatim>\<open>headers.get("content-type")\<close>; \<open>json_body\<close> is what \<^verbatim>\<open>json()\<close> returns or raises.
\<close>

datatype http_verb = HTTP_GET | HTTP_POST | HTTP_PUT | HTTP_DELETE

record http_call =
  verb :: http_verb
  url :: string
  json_data :: json
  params :: "(string \<times> json) list"
  headers :: "(string \<times> json) list"

record http_response =
  status_code :: nat
  http_error_text :: string
  content_type :: "string option"
  text_body :: string
  json_body :: "py_error + json"

text \<open>
  \<^verbatim>\<open>resp.raise_for_status()\<close>: the exception it raises, if it raises. It raises an
  \<^verbatim>\<open>HTTPError\<close>, a \<^verbatim>\<open>RequestException\<close>, for the statuses 400 to 599 and for no other.
\<close>

definition raise_for_status :: "http_response \<Rightarrow> py_error option" where
  "raise_for_status resp =
     (if 400 \<le> status_code resp \<and> status_code resp < 600
      then Some (RequestException (http_error_text resp)) else None)"

text \<open>
  The standard library and \<^verbatim>\<open>requests\<close> are parameters of the model: \<open>json_loads\<close> is
  \<^verbatim>\<open>json.loads\<close> (\<open>Inl\<close> the exception it raises: a \<^verbatim>\<open>JSONDecodeError\<close> for a text that is
  no JSON, a plain \<^verbatim>\<open>ValueError\<close> for an integer of more digits than the interpreter
  converts, a \<^verbatim>\<open>RecursionError\<close> for a text nested too deep), \<open>json_dumps_indent2\<close> is
  \<^verbatim>\<open>json.dumps(_, indent=2)\<close>, \<open>md5_digest\<close> is the 128-bit digest of \<^verbatim>\<open>hashlib.md5\<close>,
  \<open>str_other\<close> is \<^verbatim>\<open>str\<close> on floats, lists and dicts, \<open>repr_str\<close> is \<^verbatim>\<open>repr\<close> on strings (it
  enters the messages of \<^verbatim>\<open>inspect\<close>), and \<open>requests_send\<close> is \<^verbatim>\<open>requests.get\<close>, \<^verbatim>\<open>post\<close>,
  \<^verbatim>\<open>put\<close> and \<^verbatim>\<open>delete\<close>.
\<close>

record pylib =
  json_loads :: "string \<Rightarrow> py_error + json"
  json_dumps_indent2 :: "json \<Rightarrow> string"
  md5_digest :: "string \<Rightarrow> 128 word"
  str_other :: "json \<Rightarrow> string"
  repr_str :: "string \<Rightarrow> string"
  requests_send :: "http_call \<Rightarrow> py_error + http_response"

text \<open>\<^verbatim>\<open>hexdigest()\<close>: the 16 bytes of the digest as 32 lowercase hexadecimal digits.\<close>

definition hex_digit :: "nat \<Rightarrow> char" where
  "hex_digit n = (if n < 10 then char_of (48 + n) else char_of (87 + n))"

definition hexdigest :: "128 word \<Rightarrow> string" where
  "hexdigest w = map (\<lambda>i. hex_digit (unat (drop_bit (4 * (31 - i)) w AND 15))) [0..<32]"

section \<open>Tool names\<close>


definition OPENAPI_URL :: string where
  "OPENAPI_URL = ''https://app.turtlemint.com/api/docs/swagger-ui-init.js''"

definition sanitize_name :: "string \<Rightarrow> string" where
  "sanitize_name name = py_replace name ''-'' ''_''"

definition unsanitize_name :: "string \<Rightarrow> string" where
  "unsanitize_name name = py_replace name ''_'' ''-''"

text \<open>The character class \<^verbatim>\<open>[a-zA-Z0-9_-]\<close> of the regular expression.\<close>

definition allowed_char :: "char \<Rightarrow> bool" where
  "allowed_char c =
     (let n = of_char c :: nat in
        (97 \<le> n \<and> n \<le> 122) \<or> (65 \<le> n \<and> n \<le> 90) \<or> (48 \<le> n \<and> n \<le> 57)
        \<or> c = CHR ''_'' \<or> c = CHR ''-'')"

text \<open>The endpoint as it enters the raw name: stripped of \<open>/\<close>, \<open>/\<close> to \<open>_\<close>, braces removed.\<close>

definition endpoint_part :: "string \<Rightarrow> string" where
  "endpoint_part endpoint =
     py_replace (py_replace (py_replace (py_strip endpoint CHR ''/'') ''/'' ''_'') ''{'' '''') ''}'' ''''"

definition sanitize_tool_name :: "pylib \<Rightarrow> string \<Rightarrow> string \<Rightarrow> string" where
  "sanitize_tool_name L method endpoint =
     (let raw_name = method @ ''_'' @ endpoint_part endpoint;
          cleaned = filter allowed_char raw_name
      in if length cleaned > 64
         then take 55 cleaned @ ''_'' @ take 8 (hexdigest (md5_digest L cleaned))
         else cleaned)"

text \<open>The pattern \<^verbatim>\<open>^[A-Za-z0-9_-]{1,64}$\<close> of the specification.\<close>

definition matches_tool_pattern :: "string \<Rightarrow> bool" where
  "matches_tool_pattern s = (1 \<le> length s \<and> length s \<le> 64 \<and> list_all allowed_char s)"

text \<open>A hexadecimal digit as \<^verbatim>\<open>hexdigest()\<close> writes it: \<^verbatim>\<open>[0-9a-f]\<close>.\<close>

definition lower_hex_char :: "char \<Rightarrow> bool" where
  "lower_hex_char c =
     (let n = of_char c :: nat in (48 \<le> n \<and> n \<le> 57) \<or> (97 \<le> n \<and> n \<le> 102))"

section \<open>Dynamically typed operations\<close>

text \<open>Sequencing of steps that may raise: the first exception ends the computation.\<close>

definition bind_err :: "'e + 'a \<Rightarrow> ('a \<Rightarrow> 'e + 'b) \<Rightarrow> 'e + 'b" where
  "bind_err r f = (case r of Inl e \<Rightarrow> Inl e | Inr v \<Rightarrow> f v)"

text \<open>
  The truth value of an object in \<^verbatim>\<open>if v\<close>, \<^verbatim>\<open>not v\<close> and \<^verbatim>\<open>a or b\<close>. A float is false when
  it is \<open>0.0\<close> or \<open>-0.0\<close>.
\<close>

fun truthy :: "json \<Rightarrow> bool" where
  "truthy JNull = False"
| "truthy (JBool b) = b"
| "truthy (JInt i) = (i \<noteq> 0)"
| "truthy (JFloat w) = (w \<noteq> 0 \<and> w \<noteq> 0x8000000000000000)"
| "truthy (JStr s) = (s \<noteq> [])"
| "truthy (JArr xs) = (xs \<noteq> [])"
| "truthy (JObj d) = (d \<noteq> [])"

text \<open>\<^verbatim>\<open>v[k]\<close> for a string \<open>k\<close>: only a dict can be subscripted by a string.\<close>

fun py_getitem :: "json \<Rightarrow> string \<Rightarrow> py_error + json" where
  "py_getitem (JObj d) k = (case map_of d k of None \<Rightarrow> Inl (KeyError k) | Some v \<Rightarrow> Inr v)"
| "py_getitem v k = Inl TypeError"

text \<open>\<^verbatim>\<open>v.get(k, default)\<close>: of the values modelled only a dict has the method.\<close>

fun py_get :: "json \<Rightarrow> string \<Rightarrow> json \<Rightarrow> py_error + json" where
  "py_get (JObj d) k dflt = Inr (case map_of d k of None \<Rightarrow> dflt | Some v \<Rightarrow> v)"
| "py_get v k dflt = Inl AttributeError"

text \<open>\<^verbatim>\<open>v.items()\<close>.\<close>

fun py_items :: "json \<Rightarrow> py_error + (string \<times> json) list" where
  "py_items (JObj d) = Inr d"
| "py_items v = Inl AttributeError"

text \<open>
  \<^verbatim>\<open>for x in v\<close>: a list gives its elements, a dict its keys, a string its characters;
  nothing else is iterable.
\<close>

fun py_iter :: "json \<Rightarrow> py_error + json list" where
  "py_iter (JArr xs) = Inr xs"
| "py_iter (JObj d) = Inr (map (\<lambda>kv. JStr (fst kv)) d)"
| "py_iter (JStr s) = Inr (map (\<lambda>c. JStr [c]) s)"
| "py_iter v = Inl TypeError"

text \<open>
  \<^verbatim>\<open>k in v\<close> for a string \<open>k\<close>: a key of a dict, an element of a list, a substring of a
  string.
\<close>

fun py_in :: "string \<Rightarrow> json \<Rightarrow> py_error + bool" where
  "py_in k (JObj d) = Inr (map_of d k \<noteq> None)"
| "py_in k (JArr xs) = Inr (JStr k \<in> set xs)"
| "py_in k (JStr s) = Inr (str_contains s k)"
| "py_in k v = Inl TypeError"

text \<open>\<^verbatim>\<open>sanitize_name(v)\<close> on an object: \<^verbatim>\<open>replace\<close> is a method of strings only.\<close>

fun sanitize_name_of :: "json \<Rightarrow> py_error + string" where
  "sanitize_name_of (JStr s) = Inr (sanitize_name s)"
| "sanitize_name_of v = Inl AttributeError"







section \<open>The embedded JSON extractor\<close>

text \<open>\<^verbatim>\<open>s[a:b]\<close> for \<open>a \<le> b\<close>.\<close>

definition py_slice :: "string \<Rightarrow> nat \<Rightarrow> nat \<Rightarrow> string" where
  "py_slice s a b = take (b - a) (drop a s)"

text \<open>
  The loop \<^verbatim>\<open>for i in range(brace_start, len(js_code))\<close>, over the characters from
  \<open>brace_start\<close> on: \<open>Some i\<close> is the index at which it stops with \<open>count = 0\<close>, \<open>None\<close>
  that it runs to the end of the text.
\<close>

fun scan_braces :: "string \<Rightarrow> nat \<Rightarrow> int \<Rightarrow> nat option" where
  "scan_braces [] i count = None"
| "scan_braces (c # cs) i count =
     (if c = CHR ''{'' then scan_braces cs (Suc i) (count + 1)
      else if c = CHR ''}'' then
        (if count - 1 = 0 then Some i else scan_braces cs (Suc i) (count - 1))
      else scan_braces cs (Suc i) count)"

text \<open>
  The clause \<^verbatim>\<open>except json.JSONDecodeError as e: raise ValueError(...)\<close> around
  \<^verbatim>\<open>json.loads\<close>: it catches that class only, every other exception leaves the function
  as it is. (\<^verbatim>\<open>json.loads\<close> raises no exception of \<^verbatim>\<open>requests\<close>.)
\<close>

fun except_json_decode_error :: "py_error \<Rightarrow> py_error + json" where
  "except_json_decode_error (JSONDecodeError m) =
     Inl (ValueError (''Failed to parse swaggerDoc JSON: '' @ m))"
| "except_json_decode_error e = Inl e"

definition extract_swagger_doc_from_js :: "pylib \<Rightarrow> string \<Rightarrow> py_error + json" where
  "extract_swagger_doc_from_js L js_code =
     (let key = ''swaggerDoc'' in
      case py_find js_code key 0 of
        None \<Rightarrow> Inl (ValueError ''No 'swaggerDoc' found in JS content'')
      | Some start_idx \<Rightarrow>
          (case py_find js_code ''{'' start_idx of
             None \<Rightarrow> Inl (ValueError ''Opening brace for swaggerDoc not found'')
           | Some brace_start \<Rightarrow>
               (case scan_braces (drop brace_start js_code) brace_start 0 of
                  None \<Rightarrow> Inl (ValueError ''Unmatched braces while parsing swaggerDoc'')
                | Some i \<Rightarrow>
                    (let json_str = py_slice js_code brace_start (i + 1) in
                     case json_loads L json_str of
                       Inr v \<Rightarrow> Inr v
                     | Inl e \<Rightarrow> except_json_decode_error e))))"

text \<open>
  The brace depth of a text in the words of the specification: one up for every \<open>{\<close>,
  one down for every \<open>}\<close>.
\<close>

definition brace_depth :: "string \<Rightarrow> int" where
  "brace_depth s = int (count_list s CHR ''{'') - int (count_list s CHR ''}'')"

text \<open>
  The conditions of the extractor in the words of the specification. \<open>sub\<close> occurs in \<open>s\<close>
  at index \<open>k\<close>; \<open>k\<close> is the first such index; and \<open>n\<close> is the length of the shortest
  non-empty prefix of \<open>t\<close> whose brace depth is back at zero.
\<close>

definition occurs_at :: "string \<Rightarrow> string \<Rightarrow> nat \<Rightarrow> bool" where
  "occurs_at s sub k = (k \<le> length s \<and> take (length sub) (drop k s) = sub)"

definition first_occurrence :: "string \<Rightarrow> string \<Rightarrow> nat \<Rightarrow> bool" where
  "first_occurrence s sub k = (occurs_at s sub k \<and> (\<forall>j<k. \<not> occurs_at s sub j))"

definition least_balanced :: "string \<Rightarrow> nat \<Rightarrow> bool" where
  "least_balanced t n =
     (1 \<le> n \<and> n \<le> length t \<and> brace_depth (take n t) = 0
      \<and> (\<forall>m. 1 \<le> m \<and> m < n \<longrightarrow> brace_depth (take m t) \<noteq> 0))"

section \<open>Fetching the specification\<close>

text \<open>
  The clause \<^verbatim>\<open>except requests.RequestException as e: raise RuntimeError(...) from e\<close>
  around the body of \<^verbatim>\<open>get_openapi_spec\<close>.
\<close>

definition wrap_request_exception :: "py_error + json \<Rightarrow> py_error + json" where
  "wrap_request_exception r =
     (case r of
        Inr v \<Rightarrow> Inr v
      | Inl e \<Rightarrow>
          (case as_request_exception e of
             Some m \<Rightarrow> Inl (RuntimeError (''Failed to fetch OpenAPI spec: '' @ m))
           | None \<Rightarrow> Inl e))"

text \<open>
  The request \<^verbatim>\<open>requests.get(OPENAPI_URL)\<close>.
\<close>

definition spec_request :: http_call where
  "spec_request =
     \<lparr>verb = HTTP_GET, url = OPENAPI_URL, json_data = JNull, params = [], headers = []\<rparr>"

definition get_openapi_spec :: "pylib \<Rightarrow> py_error + json" where
  "get_openapi_spec L =
     wrap_request_exception
       (case requests_send L spec_request of
          Inl e \<Rightarrow> Inl e
        | Inr resp \<Rightarrow>
            (case raise_for_status resp of
               Some e \<Rightarrow> Inl e
             | None \<Rightarrow>
                 (let content_type =
                        py_lower (case content_type resp of None \<Rightarrow> [] | Some c \<Rightarrow> c)
                  in if str_contains content_type ''application/javascript''
                     then extract_swagger_doc_from_js L (text_body resp)
                     else if str_contains content_type ''application/json''
                     then json_body resp
                     else Inl (ValueError (''Unsupported content-type: '' @ content_type)))))"

section \<open>Resolving the parameters of an operation\<close>

text \<open>
  The type hint of a parameter,
  \<^verbatim>\<open>param.get("type") or (param.get("schema") or {}).get("type", "str")\<close>. The loop computes
  it and never reads it again; only the exception it may raise matters to the result.
\<close>

definition param_type_of :: "json \<Rightarrow> py_error + json" where
  "param_type_of param =
     bind_err (py_get param ''type'' JNull) (\<lambda>t.
       if truthy t then Inr t
       else bind_err (py_get param ''schema'' JNull) (\<lambda>schema.
         py_get (if truthy schema then schema else JObj []) ''type'' (JStr ''str'')))"

text \<open>
  The body of the loop of \<^verbatim>\<open>parse_parameters\<close>, with \<open>args\<close> and \<open>defaults\<close> as the state.
\<close>

fun parse_parameters_loop ::
  "json list \<Rightarrow> string list \<times> (string \<times> json) list
     \<Rightarrow> py_error + (string list \<times> (string \<times> json) list)" where
  "parse_parameters_loop [] acc = Inr acc"
| "parse_parameters_loop (param # rest) acc =
     bind_err (py_getitem param ''name'') (\<lambda>raw.
     bind_err (sanitize_name_of raw) (\<lambda>name.
     bind_err (py_get param ''required'' (JBool False)) (\<lambda>required.
     bind_err (param_type_of param) (\<lambda>param_type.
       parse_parameters_loop rest
         (fst acc @ [name],
          if \<not> truthy required then AList.update name JNull (snd acc) else snd acc)))))"

definition parse_parameters ::
  "json \<Rightarrow> py_error + (string list \<times> (string \<times> json) list)" where
  "parse_parameters parameters =
     bind_err (py_iter parameters) (\<lambda>ps. parse_parameters_loop ps ([], []))"

section \<open>Building a tool\<close>

text \<open>
  The summary of an operation, \<^verbatim>\<open>operation.get("summary", f"{method.upper()} {endpoint}")\<close>:
  the value of the field, or the text made of the method in upper case, a space and the
  endpoint. That text is kept as its two parts, \<open>Generated method endpoint\<close>: the upper
  case of a character can lie outside the characters of the model (U+00FF, U+00B5) or
  be two characters (U+00DF).
\<close>

datatype summary = Given json | Generated string string

fun operation_summary :: "json \<Rightarrow> string \<Rightarrow> string \<Rightarrow> py_error + summary" where
  "operation_summary (JObj d) method endpoint =
     Inr (case map_of d ''summary'' of None \<Rightarrow> Generated method endpoint | Some v \<Rightarrow> Given v)"
| "operation_summary v method endpoint = Inl AttributeError"

text \<open>
  \<^verbatim>\<open>inspect.Parameter(name, POSITIONAL_OR_KEYWORD)\<close>, with or without \<^verbatim>\<open>default=\<close>. The
  constructor reads \<^verbatim>\<open>name[0]\<close>, an \<^verbatim>\<open>IndexError\<close> on the empty name; a name that is a dot
  and digits is an implicit argument: its name becomes \<open>implicit\<close> and the digits, its
  kind positional-only; and a name that is a keyword or no identifier is refused with
  a \<^verbatim>\<open>ValueError\<close>.
\<close>

datatype param_kind = POSITIONAL_ONLY | POSITIONAL_OR_KEYWORD

record inspect_parameter =
  ip_name :: string
  ip_kind :: param_kind
  ip_default :: "json option"

definition is_implicit :: "string \<Rightarrow> bool" where
  "is_implicit name = (case name of [] \<Rightarrow> False | c # cs \<Rightarrow> c = CHR ''.'' \<and> py_isdigit cs)"

definition parameter_name :: "string \<Rightarrow> string" where
  "parameter_name name = (if is_implicit name then ''implicit'' @ tl name else name)"

definition inspect_Parameter :: "pylib \<Rightarrow> string \<Rightarrow> json option \<Rightarrow> py_error + inspect_parameter" where
  "inspect_Parameter L name dflt =
     (if name = [] then Inl IndexError
      else
        (let kind = (if is_implicit name then POSITIONAL_ONLY else POSITIONAL_OR_KEYWORD);
             name = parameter_name name;
             is_keyword = (iskeyword name \<and> kind \<noteq> POSITIONAL_ONLY)
         in if is_keyword \<or> \<not> py_isidentifier name
            then Inl (ValueError (repr_str L name @ '' is not a valid parameter name''))
            else Inr \<lparr>ip_name = name, ip_kind = kind, ip_default = dflt\<rparr>))"

text \<open>
  \<^verbatim>\<open>inspect.Signature(sig_params)\<close>: the loop that validates the parameters, with
  \<open>top_kind\<close>, \<open>seen_default\<close> and the parameters accepted so far as the state. The kinds are ordered as the
  library numbers them.
\<close>

fun kind_rank :: "param_kind \<Rightarrow> nat" where
  "kind_rank POSITIONAL_ONLY = 0"
| "kind_rank POSITIONAL_OR_KEYWORD = 1"

fun kind_description :: "param_kind \<Rightarrow> string" where
  "kind_description POSITIONAL_ONLY = ''positional-only''"
| "kind_description POSITIONAL_OR_KEYWORD = ''positional or keyword''"

fun inspect_Signature_loop ::
  "pylib \<Rightarrow> inspect_parameter list \<Rightarrow> param_kind \<Rightarrow> bool \<Rightarrow> inspect_parameter list
     \<Rightarrow> py_error + inspect_parameter list" where
  "inspect_Signature_loop L [] top_kind seen_default accepted = Inr accepted"
| "inspect_Signature_loop L (param # rest) top_kind seen_default accepted =
     (if kind_rank (ip_kind param) < kind_rank top_kind then
        Inl (ValueError (''wrong parameter order: '' @ kind_description top_kind
                         @ '' parameter before '' @ kind_description (ip_kind param)
                         @ '' parameter''))
      else if ip_default param = None \<and> seen_default then
        Inl (ValueError ''non-default argument follows default argument'')
      else if ip_name param \<in> set (map ip_name accepted) then
        Inl (ValueError (''duplicate parameter name: '' @ repr_str L (ip_name param)))
      else
        inspect_Signature_loop L rest
          (if kind_rank top_kind < kind_rank (ip_kind param) then ip_kind param else top_kind)
          (seen_default \<or> ip_default param \<noteq> None)
          (accepted @ [param]))"

definition inspect_Signature :: "pylib \<Rightarrow> inspect_parameter list \<Rightarrow> py_error + inspect_parameter list" where
  "inspect_Signature L parameters = inspect_Signature_loop L parameters POSITIONAL_ONLY False []"

text \<open>
  A loop \<^verbatim>\<open>for x in xs: ys.append(f(x))\<close> in which \<open>f\<close> may raise.
\<close>

fun for_each :: "('a \<Rightarrow> py_error + 'b) \<Rightarrow> 'a list \<Rightarrow> py_error + 'b list" where
  "for_each f [] = Inr []"
| "for_each f (x # xs) = bind_err (f x) (\<lambda>y. bind_err (for_each f xs) (\<lambda>ys. Inr (y # ys)))"

text \<open>
  The function object that \<^verbatim>\<open>build_func\<close> returns: the variables its closure captures,
  its \<^verbatim>\<open>__signature__\<close> (the name of each parameter with its default, if it has one; its
  kind is read by the checks of \<^verbatim>\<open>inspect.Signature\<close> only and not kept) and its \<^verbatim>\<open>__doc__\<close>.
\<close>

record tool_func =
  fn_endpoint :: string
  fn_method :: string
  fn_parameters :: json
  fn_request_body :: json
  fn_signature :: "(string \<times> json option) list"
  fn_doc :: summary

text \<open>Lines 108 to 117 of \<^verbatim>\<open>build_func\<close>: the arguments and their defaults.\<close>

definition build_func_args ::
  "json \<Rightarrow> json \<Rightarrow> py_error + (string list \<times> (string \<times> json) list)" where
  "build_func_args parameters request_body =
     (if truthy request_body then
        bind_err (py_get request_body ''content'' (JObj [])) (\<lambda>content.
        bind_err (py_in ''application/json'' content) (\<lambda>has_json.
          if has_json then
            bind_err (parse_parameters parameters) (\<lambda>r.
              Inr (fst r @ [''body''], AList.update ''body'' JNull (snd r)))
          else parse_parameters parameters))
      else parse_parameters parameters)"

definition build_func :: "pylib \<Rightarrow> string \<Rightarrow> string \<Rightarrow> json \<Rightarrow> py_error + tool_func" where
  "build_func L endpoint method operation =
     bind_err (py_get operation ''parameters'' (JArr [])) (\<lambda>parameters.
     bind_err (py_get operation ''requestBody'' JNull) (\<lambda>request_body.
     bind_err (build_func_args parameters request_body) (\<lambda>r.
     bind_err (operation_summary operation method endpoint) (\<lambda>summary.
       (let args = fst r; defaults = snd r;
            required = filter (\<lambda>arg. map_of defaults arg = None) args;
            optional = filter (\<lambda>arg. map_of defaults arg \<noteq> None) args
        in bind_err (for_each (\<lambda>arg. inspect_Parameter L arg None) required) (\<lambda>required_params.
           bind_err (for_each (\<lambda>arg. inspect_Parameter L arg (map_of defaults arg)) optional)
             (\<lambda>optional_params.
           bind_err (inspect_Signature L (required_params @ optional_params)) (\<lambda>sig_params.
             Inr \<lparr>fn_endpoint = endpoint, fn_method = method, fn_parameters = parameters,
                   fn_request_body = request_body,
                   fn_signature = map (\<lambda>p. (ip_name p, ip_default p)) sig_params,
                   fn_doc = summary\<rparr>))))))))"

section \<open>The transport\<close>





section \<open>Calling a tool\<close>






section \<open>Registration\<close>

text \<open>
  What \<^verbatim>\<open>mcp.tool(description=summary, name=tool_name)(func)\<close> hands to the registry. The
  registry is the list of these, in the order of the calls. An exception ends the
  process while the module is loaded, so the registrations made before it are not kept.
\<close>

record registration =
  reg_name :: string
  reg_description :: summary
  reg_func :: tool_func

fun register_operations ::
  "pylib \<Rightarrow> string \<Rightarrow> (string \<times> json) list \<Rightarrow> registration list
     \<Rightarrow> py_error + registration list" where
  "register_operations L endpoint [] registry = Inr registry"
| "register_operations L endpoint (mo # rest) registry =
     bind_err (operation_summary (snd mo) (fst mo) endpoint) (\<lambda>summary.
     bind_err (build_func L endpoint (fst mo) (snd mo)) (\<lambda>func.
       (let tool_name = sanitize_tool_name L (fst mo) endpoint
        in register_operations L endpoint rest
             (registry @ [\<lparr>reg_name = tool_name, reg_description = summary, reg_func = func\<rparr>]))))"

fun register_paths ::
  "pylib \<Rightarrow> (string \<times> json) list \<Rightarrow> registration list \<Rightarrow> py_error + registration list" where
  "register_paths L [] registry = Inr registry"
| "register_paths L (eo # rest) registry =
     bind_err (py_items (snd eo)) (\<lambda>ops.
     bind_err (register_operations L (fst eo) ops registry) (\<lambda>registry'.
       register_paths L rest registry'))"

text \<open>The loops of \<^verbatim>\<open>register_all_tools\<close> on a specification that has been fetched.\<close>

definition register_spec :: "pylib \<Rightarrow> json \<Rightarrow> py_error + registration list" where
  "register_spec L spec =
     bind_err (py_getitem spec ''paths'') (\<lambda>paths.
     bind_err (py_items paths) (\<lambda>items. register_paths L items []))"

definition register_all_tools :: "pylib \<Rightarrow> py_error + registration list" where
  "register_all_tools L = bind_err (get_openapi_spec L) (register_spec L)"

section \<open>The terms of the specification\<close>

text \<open>
  The conditions on an operation in the terms of the specification. The raw name of a
  parameter specification (the empty string when it has none).
\<close>

definition param_name :: "json \<Rightarrow> string" where
  "param_name p =
     (case p of JObj d \<Rightarrow> (case map_of d ''name'' of Some (JStr n) \<Rightarrow> n | _ \<Rightarrow> []) | _ \<Rightarrow> [])"

text \<open>
  Whether the parameter is required: the truth value of its \<open>required\<close> field, false when
  the field is missing.
\<close>

definition param_required :: "json \<Rightarrow> bool" where
  "param_required p =
     (case p of JObj d \<Rightarrow> (case map_of d ''required'' of Some r \<Rightarrow> truthy r | None \<Rightarrow> False)
      | _ \<Rightarrow> False)"

definition is_dict :: "json \<Rightarrow> bool" where
  "is_dict v = (case v of JObj d \<Rightarrow> True | _ \<Rightarrow> False)"

text \<open>
  The parameter specification is an object with a string \<open>name\<close>.
\<close>

definition has_string_name :: "json \<Rightarrow> bool" where
  "has_string_name p =
     (case p of JObj d \<Rightarrow> (case map_of d ''name'' of Some (JStr n) \<Rightarrow> True | _ \<Rightarrow> False)
      | _ \<Rightarrow> False)"

text \<open>
  The type hint can be computed: \<open>type\<close> is set, or \<open>schema\<close> is missing, empty or an
  object.
\<close>

definition type_hint_ok :: "json \<Rightarrow> bool" where
  "type_hint_ok p =
     (case p of
        JObj d \<Rightarrow>
          (case map_of d ''type'' of Some t \<Rightarrow> truthy t | None \<Rightarrow> False)
          \<or> (case map_of d ''schema'' of Some s \<Rightarrow> \<not> truthy s \<or> is_dict s | None \<Rightarrow> True)
      | _ \<Rightarrow> False)"

text \<open>
  A well-formed parameter specification.
\<close>

definition param_ok :: "json \<Rightarrow> bool" where
  "param_ok p = (has_string_name p \<and> type_hint_ok p)"

text \<open>
  The argument name of a parameter: its name, sanitized.
\<close>

definition arg_name :: "json \<Rightarrow> string" where
  "arg_name p = sanitize_name (param_name p)"

text \<open>
  The statement \<^verbatim>\<open>if not required: defaults[name] = None\<close> as a function of the parameter.
\<close>

definition add_default :: "json \<Rightarrow> (string \<times> json) list \<Rightarrow> (string \<times> json) list" where
  "add_default p defaults =
     (if \<not> param_required p then AList.update (arg_name p) JNull defaults else defaults)"

text \<open>
  A request body specification as the data model has it: missing, or an object whose
  \<open>content\<close>, if it has one, is an object keyed by content type.
\<close>

definition request_body_ok :: "json \<Rightarrow> bool" where
  "request_body_ok rb =
     (case rb of
        JNull \<Rightarrow> True
      | JObj d \<Rightarrow> (case map_of d ''content'' of None \<Rightarrow> True | Some c \<Rightarrow> is_dict c)
      | _ \<Rightarrow> False)"

text \<open>
  A request body is present and declares \<^verbatim>\<open>application/json\<close> content.
\<close>

definition declares_json :: "json \<Rightarrow> bool" where
  "declares_json rb =
     (case rb of
        JObj d \<Rightarrow>
          (case map_of d ''content'' of
             Some (JObj c) \<Rightarrow> map_of c ''application/json'' \<noteq> None
           | _ \<Rightarrow> False)
      | _ \<Rightarrow> False)"




text \<open>
  The content type that \<^verbatim>\<open>get_openapi_spec\<close> branches on.
\<close>

definition declared_content_type :: "http_response \<Rightarrow> string" where
  "declared_content_type resp =
     py_lower (case content_type resp of None \<Rightarrow> [] | Some c \<Rightarrow> c)"

section \<open>Properties of the tool names\<close>

lemma hex_digit_allowed: "n < 16 \<Longrightarrow> allowed_char (hex_digit n)"
  by (simp add: hex_digit_def allowed_char_def Let_def)

lemma hex_digit_lower_hex: "n < 16 \<Longrightarrow> lower_hex_char (hex_digit n)"
  by (simp add: hex_digit_def lower_hex_char_def Let_def)

lemma nibble_bound: "unat ((w :: 128 word) AND 15) < 16"
proof -
  have "unat (w AND 15) \<le> unat (15 :: 128 word)"
    by (rule word_and_le1 [THEN word_le_nat_alt [THEN iffD1]])
  then show ?thesis by simp
qed

lemma hexdigest_length: "length (hexdigest w) = 32"
  by (simp add: hexdigest_def)

lemma hexdigest_allowed: "list_all allowed_char (hexdigest w)"
  by (simp add: hexdigest_def list_all_iff hex_digit_allowed nibble_bound)

lemma hexdigest_lower_hex: "list_all lower_hex_char (hexdigest w)"
  by (simp add: hexdigest_def list_all_iff hex_digit_lower_hex nibble_bound)

lemma list_all_take_prefix: "list_all P xs \<Longrightarrow> list_all P (take n xs)"
  by (auto simp: list_all_iff dest: in_set_takeD)

lemma allowed_underscore: "allowed_char CHR ''_''"
  by (simp add: allowed_char_def)

lemma cleaned_split:
  "filter allowed_char (method @ ''_'' @ p)
     = filter allowed_char method @ ''_'' @ filter allowed_char p"
  by (simp add: allowed_underscore)

text \<open>
  C2, as the code has it. Write \<open>cleaned\<close> for the method with the characters outside
  \<^verbatim>\<open>[A-Za-z0-9_-]\<close> removed (its case is kept: the code never lowercases it), then \<open>_\<close>,
  then the cleaned path. \<^verbatim>\<open>sanitize_tool_name\<close> returns \<open>cleaned\<close> when it has at most 64
  characters, and otherwise its first 55 characters, \<open>_\<close> and the first 8 hexadecimal
  digits of the MD5 digest of \<open>cleaned\<close>. The result always matches
  \<^verbatim>\<open>^[A-Za-z0-9_-]{1,64}$\<close>. When the method consists of allowed characters and is in lower
  case already, \<open>cleaned\<close> is the lowercase method, \<open>_\<close> and the cleaned path. Equal inputs
  give equal outputs.
\<close>

theorem sanitize_tool_name_shape:
  "(let cleaned = filter allowed_char method @ ''_'' @ filter allowed_char (endpoint_part endpoint);
        suffix = take 8 (hexdigest (md5_digest L cleaned))
    in sanitize_tool_name L method endpoint =
         (if 64 < length cleaned then take 55 cleaned @ ''_'' @ suffix else cleaned)
       \<and> length suffix = 8 \<and> list_all lower_hex_char suffix
       \<and> matches_tool_pattern (sanitize_tool_name L method endpoint)
       \<and> (list_all allowed_char method \<and> py_lower method = method \<longrightarrow>
            cleaned = py_lower method @ ''_'' @ filter allowed_char (endpoint_part endpoint))
       \<and> (\<forall>method' endpoint'. method' = method \<and> endpoint' = endpoint \<longrightarrow>
            sanitize_tool_name L method' endpoint' = sanitize_tool_name L method endpoint))"
proof -
  define cleaned where
    "cleaned = filter allowed_char method @ ''_'' @ filter allowed_char (endpoint_part endpoint)"
  define suffix where "suffix = take 8 (hexdigest (md5_digest L cleaned))"
  have raw: "filter allowed_char (method @ ''_'' @ endpoint_part endpoint) = cleaned"
    by (simp only: cleaned_def cleaned_split)
  have eq: "sanitize_tool_name L method endpoint =
         (if 64 < length cleaned then take 55 cleaned @ ''_'' @ suffix else cleaned)"
    unfolding sanitize_tool_name_def Let_def raw suffix_def by (rule refl)
  have len: "length suffix = 8"
    by (simp add: suffix_def hexdigest_length)
  have hex: "list_all lower_hex_char suffix"
    unfolding suffix_def by (rule list_all_take_prefix) (rule hexdigest_lower_hex)
  have call: "list_all allowed_char cleaned"
    by (auto simp: cleaned_def list_all_iff allowed_underscore)
  have sall: "list_all allowed_char suffix"
    unfolding suffix_def by (rule list_all_take_prefix) (rule hexdigest_allowed)
  have nonempty: "1 \<le> length cleaned"
    by (simp add: cleaned_def)
  have pat: "matches_tool_pattern (sanitize_tool_name L method endpoint)"
  proof (cases "64 < length cleaned")
    case True
    then show ?thesis
      using len call sall
      by (simp add: eq matches_tool_pattern_def list_all_take_prefix allowed_underscore)
  next
    case False
    then show ?thesis
      using call nonempty by (simp add: eq matches_tool_pattern_def)
  qed
  have low: "list_all allowed_char method \<and> py_lower method = method \<longrightarrow>
            cleaned = py_lower method @ ''_'' @ filter allowed_char (endpoint_part endpoint)"
    by (simp add: cleaned_def list_all_iff)
  show ?thesis
    unfolding Let_def cleaned_def [symmetric] suffix_def [symmetric]
    using eq len hex pat low by simp
qed

theorem sanitize_tool_name_shape_witness:
  "\<forall>L. sanitize_tool_name L ''get'' ''/pet/{petId}'' = ''get_pet_petId''
      \<and> matches_tool_pattern ''get_pet_petId''
      \<and> sanitize_tool_name L ''post''
           ''/api/v1/insurance/policies/{policyId}/endorsements/{endorsementId}/documents''
         = ''post_api_v1_insurance_policies_policyId_endorsements_en_''
             @ take 8 (hexdigest (md5_digest L
                 ''post_api_v1_insurance_policies_policyId_endorsements_endorsementId_documents''))"
proof
  fix L
  have e1: "endpoint_part ''/pet/{petId}'' = ''pet_petId''"
    by (simp add: endpoint_part_def py_replace_def py_strip_def)
  have e2: "endpoint_part ''/api/v1/insurance/policies/{policyId}/endorsements/{endorsementId}/documents''
     = ''api_v1_insurance_policies_policyId_endorsements_endorsementId_documents''"
    by (simp add: endpoint_part_def py_replace_def py_strip_def)
  show "sanitize_tool_name L ''get'' ''/pet/{petId}'' = ''get_pet_petId''
      \<and> matches_tool_pattern ''get_pet_petId''
      \<and> sanitize_tool_name L ''post''
           ''/api/v1/insurance/policies/{policyId}/endorsements/{endorsementId}/documents''
         = ''post_api_v1_insurance_policies_policyId_endorsements_en_''
             @ take 8 (hexdigest (md5_digest L
                 ''post_api_v1_insurance_policies_policyId_endorsements_endorsementId_documents''))"
    using sanitize_tool_name_shape [of "''get''" "''/pet/{petId}''" L]
      sanitize_tool_name_shape [of "''post''"
        "''/api/v1/insurance/policies/{policyId}/endorsements/{endorsementId}/documents''" L]
    by (simp add: e1 e2 Let_def allowed_char_def matches_tool_pattern_def)
qed

text \<open>
  C2 as stated fails for a method in upper case: \<^verbatim>\<open>sanitize_tool_name("GET", "/pet")\<close> is
  \<^verbatim>\<open>GET_pet\<close>, not the lowercase method followed by \<open>_\<close> and the cleaned path.
\<close>

theorem sanitize_tool_name_uppercase_method:
  "\<forall>L. sanitize_tool_name L ''GET'' ''/pet'' = ''GET_pet''
     \<and> sanitize_tool_name L ''GET'' ''/pet''
         \<noteq> py_lower ''GET'' @ ''_'' @ filter allowed_char (endpoint_part ''/pet'')"
  by (simp add: sanitize_tool_name_def endpoint_part_def py_replace_def py_strip_def
      allowed_char_def py_lower_def lower_char_def Let_def char_of_def)

section \<open>Properties of the extractor\<close>

lemma startswith_take: "startswith s p \<longleftrightarrow> take (length p) s = p"
  by (induction s p rule: startswith.induct) auto

lemma occurs_at_0: "occurs_at s sub 0 \<longleftrightarrow> startswith s sub"
  by (simp add: occurs_at_def startswith_take)

lemma occurs_at_Suc: "occurs_at (c # cs) sub (Suc k) \<longleftrightarrow> occurs_at cs sub k"
  by (simp add: occurs_at_def)

lemma find_sub_None: "find_sub s sub = None \<longleftrightarrow> (\<forall>k. \<not> occurs_at s sub k)"
proof (induction s)
  case Nil
  show ?case by (auto simp: occurs_at_def)
next
  case (Cons c cs)
  show ?case
  proof (cases "startswith (c # cs) sub")
    case True
    then have "occurs_at (c # cs) sub 0" by (simp add: occurs_at_0)
    with True show ?thesis by auto
  next
    case False
    have "(\<forall>k. \<not> occurs_at (c # cs) sub k) \<longleftrightarrow> (\<forall>k. \<not> occurs_at cs sub k)"
    proof
      assume a: "\<forall>k. \<not> occurs_at (c # cs) sub k"
      show "\<forall>k. \<not> occurs_at cs sub k"
      proof
        fix k from a have "\<not> occurs_at (c # cs) sub (Suc k)" by blast
        then show "\<not> occurs_at cs sub k" by (simp add: occurs_at_Suc)
      qed
    next
      assume a: "\<forall>k. \<not> occurs_at cs sub k"
      show "\<forall>k. \<not> occurs_at (c # cs) sub k"
      proof
        fix k show "\<not> occurs_at (c # cs) sub k"
          using a False by (cases k) (simp_all add: occurs_at_0 occurs_at_Suc)
      qed
    qed
    with False Cons show ?thesis by simp
  qed
qed

lemma find_sub_Some: "find_sub s sub = Some k \<longleftrightarrow> first_occurrence s sub k"
proof (induction s arbitrary: k)
  case Nil
  show ?case by (auto simp: occurs_at_def first_occurrence_def)
next
  case (Cons c cs)
  show ?case
  proof (cases "startswith (c # cs) sub")
    case True
    then have o: "occurs_at (c # cs) sub 0" by (simp add: occurs_at_0)
    have "first_occurrence (c # cs) sub k \<longleftrightarrow> k = 0"
      using o by (cases k) (auto simp: first_occurrence_def)
    with True show ?thesis by auto
  next
    case False
    then have n0: "\<not> occurs_at (c # cs) sub 0" by (simp add: occurs_at_0)
    show ?thesis
    proof (cases k)
      case 0
      with False n0 show ?thesis by (auto simp: first_occurrence_def)
    next
      case (Suc k')
      have "first_occurrence (c # cs) sub (Suc k') \<longleftrightarrow> first_occurrence cs sub k'"
      proof -
        have "(\<forall>j<Suc k'. \<not> occurs_at (c # cs) sub j) \<longleftrightarrow> (\<forall>j<k'. \<not> occurs_at cs sub j)"
          using n0 by (auto simp: less_Suc_eq_0_disj occurs_at_Suc)
        then show ?thesis by (simp add: first_occurrence_def occurs_at_Suc)
      qed
      with False Suc Cons [of k'] show ?thesis by auto
    qed
  qed
qed


lemma brace_depth_Nil: "brace_depth [] = 0"
  by (simp add: brace_depth_def)

lemma brace_depth_Cons:
  "brace_depth (x # xs) =
     (if x = CHR ''{'' then 1 else if x = CHR ''}'' then - 1 else 0) + brace_depth xs"
  by (simp add: brace_depth_def)

lemma brace_depth_take_Suc:
  "c + brace_depth (take (Suc n) (x # xs)) =
     c + (if x = CHR ''{'' then 1 else if x = CHR ''}'' then - 1 else 0) + brace_depth (take n xs)"
  by (simp add: brace_depth_Cons)

lemma scan_braces_step:
  "c + (if x = CHR ''{'' then 1 else if x = CHR ''}'' then - 1 else 0) \<noteq> (0 :: int)
     \<Longrightarrow> scan_braces (x # xs) i c =
         scan_braces xs (Suc i) (c + (if x = CHR ''{'' then 1 else if x = CHR ''}'' then - 1 else 0))"
  by (auto split: if_splits)

lemma scan_braces_None:
  "1 \<le> c \<Longrightarrow> \<forall>n \<le> length cs. c + brace_depth (take n cs) \<noteq> 0
     \<Longrightarrow> scan_braces cs i c = None"
proof (induction cs arbitrary: i c)
  case Nil
  show ?case by simp
next
  case (Cons x xs)
  let ?d = "(if x = CHR ''{'' then 1 else if x = CHR ''}'' then - 1 else 0) :: int"
  have step: "\<forall>n \<le> length xs. c + ?d + brace_depth (take n xs) \<noteq> 0"
  proof (intro allI impI)
    fix n assume "n \<le> length xs"
    then have "Suc n \<le> length (x # xs)" by simp
    with Cons.prems(2) have "c + brace_depth (take (Suc n) (x # xs)) \<noteq> 0" by blast
    then show "c + ?d + brace_depth (take n xs) \<noteq> 0" unfolding brace_depth_take_Suc .
  qed
  from step have first: "c + ?d \<noteq> 0"
    by (auto simp: brace_depth_Nil dest: spec [of _ 0])
  have pos: "1 \<le> c + ?d"
    using Cons.prems(1) first by (auto split: if_splits)
  have "scan_braces xs (Suc i) (c + ?d) = None"
    using pos step by (rule Cons.IH)
  moreover have "scan_braces (x # xs) i c = scan_braces xs (Suc i) (c + ?d)"
    using first by (rule scan_braces_step)
  ultimately show ?case by simp
qed

lemma scan_braces_Some:
  "1 \<le> c \<Longrightarrow> Suc n \<le> length cs \<Longrightarrow> c + brace_depth (take (Suc n) cs) = 0
     \<Longrightarrow> \<forall>m \<le> n. c + brace_depth (take m cs) \<noteq> 0
     \<Longrightarrow> scan_braces cs i c = Some (i + n)"
proof (induction cs arbitrary: i c n)
  case Nil
  then show ?case by simp
next
  case (Cons x xs)
  let ?d = "(if x = CHR ''{'' then 1 else if x = CHR ''}'' then - 1 else 0) :: int"
  have zero: "c + ?d + brace_depth (take n xs) = 0"
    using Cons.prems(3) unfolding brace_depth_take_Suc .
  have nz: "\<forall>m < n. c + ?d + brace_depth (take m xs) \<noteq> 0"
  proof (intro allI impI)
    fix m assume "m < n"
    then have "Suc m \<le> n" by simp
    with Cons.prems(4) have "c + brace_depth (take (Suc m) (x # xs)) \<noteq> 0" by blast
    then show "c + ?d + brace_depth (take m xs) \<noteq> 0" unfolding brace_depth_take_Suc .
  qed
  show ?case
  proof (cases n)
    case 0
    with zero have "c + ?d = 0" by (simp add: brace_depth_Nil)
    with Cons.prems(1) have "x = CHR ''}'' \<and> c - 1 = 0" by (auto split: if_splits)
    with 0 show ?thesis by simp
  next
    case (Suc n')
    have first: "c + ?d \<noteq> 0"
      using nz Suc by (auto simp: brace_depth_Nil dest: spec [of _ 0])
    have pos: "1 \<le> c + ?d"
      using Cons.prems(1) first by (auto split: if_splits)
    have "scan_braces xs (Suc i) (c + ?d) = Some (Suc i + n')"
    proof (rule Cons.IH)
      show "1 \<le> c + ?d" by (rule pos)
      show "Suc n' \<le> length xs" using Cons.prems(2) Suc by simp
      show "c + ?d + brace_depth (take (Suc n') xs) = 0" using zero Suc by simp
      show "\<forall>m \<le> n'. c + ?d + brace_depth (take m xs) \<noteq> 0" using nz Suc by auto
    qed
    moreover have "scan_braces (x # xs) i c = scan_braces xs (Suc i) (c + ?d)"
      using first by (rule scan_braces_step)
    ultimately show ?thesis using Suc by simp
  qed
qed


lemma key_no_border:
  "\<forall>d. 0 < d \<and> d < length ''swaggerDoc'' \<longrightarrow> ''swaggerDoc'' ! d \<noteq> hd ''swaggerDoc''"
  by (auto simp: less_Suc_eq)

lemma occurs_at_char: "occurs_at t [c] i \<longleftrightarrow> i < length t \<and> t ! i = c"
proof (cases "i < length t")
  case True
  then have "drop i t = t ! i # drop (Suc i) t" by (simp add: Cons_nth_drop_Suc)
  with True show ?thesis by (simp add: occurs_at_def)
next
  case False
  then show ?thesis by (simp add: occurs_at_def)
qed

lemma no_char_occurrence: "(\<forall>i. \<not> occurs_at t [c] i) \<longleftrightarrow> c \<notin> set t"
  by (auto simp: occurs_at_char in_set_conv_nth)

lemma scan_start_None:
  assumes "startswith t ''{''"
    and "\<forall>n. 1 \<le> n \<and> n \<le> length t \<longrightarrow> brace_depth (take n t) \<noteq> 0"
  shows "scan_braces t b 0 = None"
proof -
  from assms(1) obtain cs where t: "t = CHR ''{'' # cs"
    by (cases t) auto
  have "\<forall>n \<le> length cs. 1 + brace_depth (take n cs) \<noteq> 0"
  proof (intro allI impI)
    fix n assume "n \<le> length cs"
    then have "1 \<le> Suc n \<and> Suc n \<le> length t" by (simp add: t)
    with assms(2) have "brace_depth (take (Suc n) t) \<noteq> 0" by blast
    then show "1 + brace_depth (take n cs) \<noteq> 0" by (simp add: t brace_depth_Cons)
  qed
  then have "scan_braces cs (Suc b) 1 = None"
    by (intro scan_braces_None) simp_all
  then show ?thesis by (simp add: t)
qed

lemma scan_start_Some:
  assumes "startswith t ''{''" and "least_balanced t n"
  shows "scan_braces t b 0 = Some (b + n - 1)"
proof -
  from assms(1) obtain cs where t: "t = CHR ''{'' # cs"
    by (cases t) auto
  from assms(2) have n1: "1 \<le> n" and nlen: "n \<le> length t"
    and zero: "brace_depth (take n t) = 0"
    and least: "\<forall>m. 1 \<le> m \<and> m < n \<longrightarrow> brace_depth (take m t) \<noteq> 0"
    by (simp_all add: least_balanced_def)
  have "n \<noteq> 1"
    using zero by (auto simp: t brace_depth_Cons brace_depth_Nil)
  with n1 obtain n' where n: "n = Suc (Suc n')"
    by (cases n; cases "n - 1") auto
  have "scan_braces cs (Suc b) 1 = Some (Suc b + n')"
  proof (rule scan_braces_Some)
    show "(1 :: int) \<le> 1" by simp
    show "Suc n' \<le> length cs" using nlen by (simp add: n t)
    show "1 + brace_depth (take (Suc n') cs) = 0"
      using zero by (simp add: n t brace_depth_Cons)
    show "\<forall>m \<le> n'. 1 + brace_depth (take m cs) \<noteq> 0"
    proof (intro allI impI)
      fix m assume "m \<le> n'"
      then have "1 \<le> Suc m \<and> Suc m < n" by (simp add: n)
      with least have "brace_depth (take (Suc m) t) \<noteq> 0" by blast
      then show "1 + brace_depth (take m cs) \<noteq> 0" by (simp add: t brace_depth_Cons)
    qed
  qed
  then show ?thesis by (simp add: t n)
qed

lemma first_occurrence_bound: "first_occurrence s sub k \<Longrightarrow> k \<le> length s"
  by (simp add: first_occurrence_def occurs_at_def)

lemma first_brace_start:
  assumes "first_occurrence t ''{'' i"
  shows "startswith (drop i t) ''{''"
  using assms by (simp add: first_occurrence_def occurs_at_def startswith_take)

lemma py_find_key:
  "py_find js sub 0 = find_sub js sub"
  by (cases "find_sub js sub") (simp_all add: py_find_def)

lemma py_find_from:
  "k \<le> length js \<Longrightarrow> py_find js sub k = map_option (\<lambda>i. k + i) (find_sub (drop k js) sub)"
  by (simp add: py_find_def)

lemma extract_no_key:
  assumes "\<forall>k. \<not> occurs_at js ''swaggerDoc'' k"
  shows "extract_swagger_doc_from_js L js
           = Inl (ValueError ''No 'swaggerDoc' found in JS content'')"
proof -
  have "find_sub js ''swaggerDoc'' = None" using assms by (simp add: find_sub_None)
  then show ?thesis
    by (simp add: extract_swagger_doc_from_js_def py_find_key)
qed

lemma extract_no_brace:
  assumes "first_occurrence js ''swaggerDoc'' k" and "CHR ''{'' \<notin> set (drop k js)"
  shows "extract_swagger_doc_from_js L js
           = Inl (ValueError ''Opening brace for swaggerDoc not found'')"
proof -
  have a: "find_sub js ''swaggerDoc'' = Some k" using assms(1) by (simp add: find_sub_Some)
  have "\<forall>i. \<not> occurs_at (drop k js) ''{'' i"
    using assms(2) by (simp add: no_char_occurrence)
  then have b: "find_sub (drop k js) ''{'' = None" by (simp add: find_sub_None)
  have "py_find js ''{'' k = None"
    using first_occurrence_bound [OF assms(1)] b by (simp add: py_find_from)
  with a show ?thesis
    by (simp add: extract_swagger_doc_from_js_def py_find_key)
qed

lemma extract_unbalanced:
  assumes "first_occurrence js ''swaggerDoc'' k"
    and "first_occurrence (drop k js) ''{'' i"
    and "\<forall>n. 1 \<le> n \<and> n \<le> length (drop (k + i) js)
            \<longrightarrow> brace_depth (take n (drop (k + i) js)) \<noteq> 0"
  shows "extract_swagger_doc_from_js L js
           = Inl (ValueError ''Unmatched braces while parsing swaggerDoc'')"
proof -
  have a: "find_sub js ''swaggerDoc'' = Some k" using assms(1) by (simp add: find_sub_Some)
  have b: "find_sub (drop k js) ''{'' = Some i" using assms(2) by (simp add: find_sub_Some)
  have c: "py_find js ''{'' k = Some (k + i)"
    using first_occurrence_bound [OF assms(1)] b by (simp add: py_find_from)
  have st: "startswith (drop (k + i) js) ''{''"
    using first_brace_start [OF assms(2)] by (simp add: add.commute)
  have "scan_braces (drop (k + i) js) (k + i) 0 = None"
    using st assms(3) by (rule scan_start_None)
  with a c show ?thesis
    by (simp add: extract_swagger_doc_from_js_def py_find_key)
qed

lemma extract_unfold:
  "find_sub js ''swaggerDoc'' = Some k \<Longrightarrow> py_find js ''{'' k = Some b
     \<Longrightarrow> scan_braces (drop b js) b 0 = Some j
     \<Longrightarrow> extract_swagger_doc_from_js L js
           = (case json_loads L (py_slice js b (j + 1)) of
                Inr v \<Rightarrow> Inr v
              | Inl e \<Rightarrow> except_json_decode_error e)"
  by (simp add: extract_swagger_doc_from_js_def py_find_key)

lemma extract_found:
  assumes "first_occurrence js ''swaggerDoc'' k"
    and "first_occurrence (drop k js) ''{'' i"
    and "least_balanced (drop (k + i) js) n"
  shows "extract_swagger_doc_from_js L js
           = (case json_loads L (take n (drop (k + i) js)) of
                Inr v \<Rightarrow> Inr v
              | Inl e \<Rightarrow> except_json_decode_error e)"
proof -
  have a: "find_sub js ''swaggerDoc'' = Some k" using assms(1) by (simp add: find_sub_Some)
  have b: "find_sub (drop k js) ''{'' = Some i" using assms(2) by (simp add: find_sub_Some)
  have c: "py_find js ''{'' k = Some (k + i)"
    using first_occurrence_bound [OF assms(1)] b by (simp add: py_find_from)
  have st: "startswith (drop (k + i) js) ''{''"
    using first_brace_start [OF assms(2)] by (simp add: add.commute)
  have d: "scan_braces (drop (k + i) js) (k + i) 0 = Some (k + i + n - 1)"
    using st assms(3) by (rule scan_start_Some)
  have n1: "1 \<le> n" using assms(3) by (simp add: least_balanced_def)
  then have e: "py_slice js (k + i) (k + i + n - 1 + 1) = take n (drop (k + i) js)"
    by (simp add: py_slice_def)
  have "extract_swagger_doc_from_js L js
           = (case json_loads L (py_slice js (k + i) (k + i + n - 1 + 1)) of
                Inr v \<Rightarrow> Inr v
              | Inl e \<Rightarrow> except_json_decode_error e)"
    using a c d by (rule extract_unfold)
  then show ?thesis by (simp only: e)
qed


lemma balanced_cases:
  "(\<forall>n. 1 \<le> n \<and> n \<le> length t \<longrightarrow> brace_depth (take n t) \<noteq> 0) \<or> (\<exists>n. least_balanced t n)"
proof (cases "\<exists>n. 1 \<le> n \<and> n \<le> length t \<and> brace_depth (take n t) = 0")
  case True
  then obtain n where n: "1 \<le> n \<and> n \<le> length t \<and> brace_depth (take n t) = 0"
    and least: "\<forall>m<n. \<not> (1 \<le> m \<and> m \<le> length t \<and> brace_depth (take m t) = 0)"
    using exists_least_iff [of "\<lambda>n. 1 \<le> n \<and> n \<le> length t \<and> brace_depth (take n t) = 0"]
    by blast
  have "least_balanced t n"
    unfolding least_balanced_def
  proof (intro conjI allI impI)
    fix m assume m: "1 \<le> m \<and> m < n"
    with n have "m \<le> length t" by simp
    with m least show "brace_depth (take m t) \<noteq> 0" by blast
  qed (use n in simp_all)
  then show ?thesis by blast
next
  case False
  then show ?thesis by blast
qed

lemma scan_least_balanced:
  assumes "startswith t ''{''" and "scan_braces t b 0 = Some j"
  shows "least_balanced t (Suc j - b)"
proof -
  from balanced_cases [of t] show ?thesis
  proof
    assume "\<forall>n. 1 \<le> n \<and> n \<le> length t \<longrightarrow> brace_depth (take n t) \<noteq> 0"
    with assms(1) have "scan_braces t b 0 = None" by (rule scan_start_None)
    with assms(2) show ?thesis by simp
  next
    assume "\<exists>n. least_balanced t n"
    then obtain n where n: "least_balanced t n" ..
    with assms(1) have "scan_braces t b 0 = Some (b + n - 1)" by (rule scan_start_Some)
    with assms(2) have "j = b + n - 1" by simp
    moreover from n have "1 \<le> n" by (simp add: least_balanced_def)
    ultimately have "Suc j - b = n" by simp
    with n show ?thesis by simp
  qed
qed

lemma except_json_decode_error_cases:
  "except_json_decode_error e
     = (case e of
          JSONDecodeError m \<Rightarrow> Inl (ValueError (''Failed to parse swaggerDoc JSON: '' @ m))
        | _ \<Rightarrow> Inl e)"
  by (cases e) simp_all

lemma except_other: "\<forall>m. e \<noteq> JSONDecodeError m \<Longrightarrow> except_json_decode_error e = Inl e"
  by (cases e) simp_all

lemma extract_shape:
  "(\<exists>v. extract_swagger_doc_from_js L js = Inr v)
   \<or> extract_swagger_doc_from_js L js = Inl (ValueError ''No 'swaggerDoc' found in JS content'')
   \<or> extract_swagger_doc_from_js L js = Inl (ValueError ''Opening brace for swaggerDoc not found'')
   \<or> extract_swagger_doc_from_js L js = Inl (ValueError ''Unmatched braces while parsing swaggerDoc'')
   \<or> (\<exists>t m. json_loads L t = Inl (JSONDecodeError m)
          \<and> extract_swagger_doc_from_js L js
              = Inl (ValueError (''Failed to parse swaggerDoc JSON: '' @ m)))
   \<or> (\<exists>t e. json_loads L t = Inl e \<and> (\<forall>m. e \<noteq> JSONDecodeError m)
          \<and> extract_swagger_doc_from_js L js = Inl e)"
proof (cases "py_find js ''swaggerDoc'' 0")
  case None
  then show ?thesis by (simp add: extract_swagger_doc_from_js_def)
next
  case (Some k)
  note k = this
  show ?thesis
  proof (cases "py_find js ''{'' k")
    case None
    with k show ?thesis by (simp add: extract_swagger_doc_from_js_def)
  next
    case (Some b)
    note b = this
    show ?thesis
    proof (cases "scan_braces (drop b js) b 0")
      case None
      with k b show ?thesis by (simp add: extract_swagger_doc_from_js_def)
    next
      case (Some j)
      have eq: "extract_swagger_doc_from_js L js
           = (case json_loads L (py_slice js b (j + 1)) of
                Inr v \<Rightarrow> Inr v
              | Inl e \<Rightarrow> except_json_decode_error e)"
        using k b Some by (simp add: extract_swagger_doc_from_js_def)
      show ?thesis
      proof (cases "json_loads L (py_slice js b (j + 1))")
        case (Inr v)
        with eq show ?thesis by simp
      next
        case (Inl e)
        show ?thesis
        proof (cases "\<exists>m. e = JSONDecodeError m")
          case True
          then obtain m where "e = JSONDecodeError m" ..
          with eq Inl have "json_loads L (py_slice js b (j + 1)) = Inl (JSONDecodeError m)
              \<and> extract_swagger_doc_from_js L js
                  = Inl (ValueError (''Failed to parse swaggerDoc JSON: '' @ m))"
            by simp
          then show ?thesis by blast
        next
          case False
          then have "\<forall>m. e \<noteq> JSONDecodeError m" by simp
          with eq Inl have "json_loads L (py_slice js b (j + 1)) = Inl e
              \<and> (\<forall>m. e \<noteq> JSONDecodeError m)
              \<and> extract_swagger_doc_from_js L js = Inl e"
            by (simp add: except_other)
          then show ?thesis by blast
        qed
      qed
    qed
  qed
qed

text \<open>
  C4, as the code has it. If \<open>swaggerDoc\<close> does not occur in the text the extractor
  raises \<^verbatim>\<open>ValueError("No 'swaggerDoc' found in JS content")\<close> (KeyNotFound). If it first
  occurs at \<open>k\<close> and no \<open>{\<close> follows from there, it raises
  \<^verbatim>\<open>ValueError("Opening brace for swaggerDoc not found")\<close> (MalformedEmbedding). If the first
  \<open>{\<close> from \<open>k\<close> on is at \<open>k + i\<close> and the brace depth counted from there is never back at
  zero, it raises \<^verbatim>\<open>ValueError("Unmatched braces while parsing swaggerDoc")\<close>
  (UnbalancedBraces). If the depth is first back at zero after \<open>n\<close> characters, these \<open>n\<close>
  characters go to \<^verbatim>\<open>json.loads\<close>. When it raises a \<^verbatim>\<open>JSONDecodeError\<close> with the message
  \<open>msg\<close>, the extractor raises \<^verbatim>\<open>ValueError("Failed to parse swaggerDoc JSON: " + msg)\<close>
  (EmbeddedJsonParseError). When it raises any other exception (a plain \<^verbatim>\<open>ValueError\<close> for
  an integer of too many digits, a \<^verbatim>\<open>RecursionError\<close> for a text nested too deep), that
  exception leaves the extractor as it is, not wrapped: a fifth failure. When it returns
  a value, the value is the result. No other outcome exists.
\<close>

theorem extract_swagger_doc_outcomes:
  "((\<forall>j. \<not> occurs_at js ''swaggerDoc'' j) \<longrightarrow>
      extract_swagger_doc_from_js L js
        = Inl (ValueError ''No 'swaggerDoc' found in JS content''))
   \<and> (first_occurrence js ''swaggerDoc'' k \<and> CHR ''{'' \<notin> set (drop k js) \<longrightarrow>
      extract_swagger_doc_from_js L js
        = Inl (ValueError ''Opening brace for swaggerDoc not found''))
   \<and> (first_occurrence js ''swaggerDoc'' k \<and> first_occurrence (drop k js) ''{'' i
       \<and> (\<forall>n. 1 \<le> n \<and> n \<le> length (drop (k + i) js)
              \<longrightarrow> brace_depth (take n (drop (k + i) js)) \<noteq> 0) \<longrightarrow>
      extract_swagger_doc_from_js L js
        = Inl (ValueError ''Unmatched braces while parsing swaggerDoc''))
   \<and> (first_occurrence js ''swaggerDoc'' k \<and> first_occurrence (drop k js) ''{'' i
       \<and> least_balanced (drop (k + i) js) n
       \<and> json_loads L (take n (drop (k + i) js)) = Inl (JSONDecodeError msg) \<longrightarrow>
      extract_swagger_doc_from_js L js
        = Inl (ValueError (''Failed to parse swaggerDoc JSON: '' @ msg)))
   \<and> (first_occurrence js ''swaggerDoc'' k \<and> first_occurrence (drop k js) ''{'' i
       \<and> least_balanced (drop (k + i) js) n
       \<and> json_loads L (take n (drop (k + i) js)) = Inl e
       \<and> (\<forall>m. e \<noteq> JSONDecodeError m) \<longrightarrow>
      extract_swagger_doc_from_js L js = Inl e)
   \<and> (first_occurrence js ''swaggerDoc'' k \<and> first_occurrence (drop k js) ''{'' i
       \<and> least_balanced (drop (k + i) js) n
       \<and> json_loads L (take n (drop (k + i) js)) = Inr v \<longrightarrow>
      extract_swagger_doc_from_js L js = Inr v)
   \<and> ((\<exists>v. extract_swagger_doc_from_js L js = Inr v)
      \<or> extract_swagger_doc_from_js L js
           = Inl (ValueError ''No 'swaggerDoc' found in JS content'')
      \<or> extract_swagger_doc_from_js L js
           = Inl (ValueError ''Opening brace for swaggerDoc not found'')
      \<or> extract_swagger_doc_from_js L js
           = Inl (ValueError ''Unmatched braces while parsing swaggerDoc'')
      \<or> (\<exists>t m. json_loads L t = Inl (JSONDecodeError m)
             \<and> extract_swagger_doc_from_js L js
                 = Inl (ValueError (''Failed to parse swaggerDoc JSON: '' @ m)))
      \<or> (\<exists>t e'. json_loads L t = Inl e' \<and> (\<forall>m. e' \<noteq> JSONDecodeError m)
             \<and> extract_swagger_doc_from_js L js = Inl e'))"
proof (intro conjI impI)
  assume "\<forall>j. \<not> occurs_at js ''swaggerDoc'' j"
  then show "extract_swagger_doc_from_js L js
        = Inl (ValueError ''No 'swaggerDoc' found in JS content'')"
    by (rule extract_no_key)
next
  assume "first_occurrence js ''swaggerDoc'' k \<and> CHR ''{'' \<notin> set (drop k js)"
  then show "extract_swagger_doc_from_js L js
        = Inl (ValueError ''Opening brace for swaggerDoc not found'')"
    by (blast intro: extract_no_brace)
next
  assume "first_occurrence js ''swaggerDoc'' k \<and> first_occurrence (drop k js) ''{'' i
       \<and> (\<forall>n. 1 \<le> n \<and> n \<le> length (drop (k + i) js)
              \<longrightarrow> brace_depth (take n (drop (k + i) js)) \<noteq> 0)"
  then show "extract_swagger_doc_from_js L js
        = Inl (ValueError ''Unmatched braces while parsing swaggerDoc'')"
    by (intro extract_unbalanced [of js k i]) simp_all
next
  assume a: "first_occurrence js ''swaggerDoc'' k \<and> first_occurrence (drop k js) ''{'' i
       \<and> least_balanced (drop (k + i) js) n
       \<and> json_loads L (take n (drop (k + i) js)) = Inl (JSONDecodeError msg)"
  then have "extract_swagger_doc_from_js L js
           = (case json_loads L (take n (drop (k + i) js)) of
                Inr v \<Rightarrow> Inr v
              | Inl e \<Rightarrow> except_json_decode_error e)"
    by (intro extract_found) simp_all
  with a show "extract_swagger_doc_from_js L js
        = Inl (ValueError (''Failed to parse swaggerDoc JSON: '' @ msg))"
    by simp
next
  assume a: "first_occurrence js ''swaggerDoc'' k \<and> first_occurrence (drop k js) ''{'' i
       \<and> least_balanced (drop (k + i) js) n
       \<and> json_loads L (take n (drop (k + i) js)) = Inl e
       \<and> (\<forall>m. e \<noteq> JSONDecodeError m)"
  then have "extract_swagger_doc_from_js L js
           = (case json_loads L (take n (drop (k + i) js)) of
                Inr v \<Rightarrow> Inr v
              | Inl e \<Rightarrow> except_json_decode_error e)"
    by (intro extract_found) simp_all
  with a show "extract_swagger_doc_from_js L js = Inl e"
    by (simp add: except_other)
next
  assume a: "first_occurrence js ''swaggerDoc'' k \<and> first_occurrence (drop k js) ''{'' i
       \<and> least_balanced (drop (k + i) js) n
       \<and> json_loads L (take n (drop (k + i) js)) = Inr v"
  then have "extract_swagger_doc_from_js L js
           = (case json_loads L (take n (drop (k + i) js)) of
                Inr v \<Rightarrow> Inr v
              | Inl e \<Rightarrow> except_json_decode_error e)"
    by (intro extract_found) simp_all
  with a show "extract_swagger_doc_from_js L js = Inr v"
    by simp
next
  show "(\<exists>v. extract_swagger_doc_from_js L js = Inr v)
      \<or> extract_swagger_doc_from_js L js
           = Inl (ValueError ''No 'swaggerDoc' found in JS content'')
      \<or> extract_swagger_doc_from_js L js
           = Inl (ValueError ''Opening brace for swaggerDoc not found'')
      \<or> extract_swagger_doc_from_js L js
           = Inl (ValueError ''Unmatched braces while parsing swaggerDoc'')
      \<or> (\<exists>t m. json_loads L t = Inl (JSONDecodeError m)
             \<and> extract_swagger_doc_from_js L js
                 = Inl (ValueError (''Failed to parse swaggerDoc JSON: '' @ m)))
      \<or> (\<exists>t e'. json_loads L t = Inl e' \<and> (\<forall>m. e' \<noteq> JSONDecodeError m)
             \<and> extract_swagger_doc_from_js L js = Inl e')"
    by (rule extract_shape)
qed


lemma scan_None_unbalanced:
  assumes "startswith t ''{''" and "scan_braces t b 0 = None"
  shows "\<forall>n. 1 \<le> n \<and> n \<le> length t \<longrightarrow> brace_depth (take n t) \<noteq> 0"
proof -
  from balanced_cases [of t] show ?thesis
  proof
    assume "\<exists>n. least_balanced t n"
    then obtain n where "least_balanced t n" ..
    with assms(1) have "scan_braces t b 0 = Some (b + n - 1)" by (rule scan_start_Some)
    with assms(2) show ?thesis by simp
  qed
qed

lemma first_occurrence_append:
  assumes "\<forall>j. \<not> occurs_at pre key j"
    and "\<forall>d. 0 < d \<and> d < length key \<longrightarrow> key ! d \<noteq> hd key"
    and "key \<noteq> []"
  shows "first_occurrence (pre @ key @ rest) key (length pre)"
  unfolding first_occurrence_def
proof (intro conjI allI impI)
  show "occurs_at (pre @ key @ rest) key (length pre)"
    by (simp add: occurs_at_def)
next
  fix j assume j: "j < length pre"
  define p where "p = drop j pre"
  define d where "d = length pre - j"
  have lenp: "length p = d" and dpos: "0 < d"
    using j by (simp_all add: p_def d_def)
  show "\<not> occurs_at (pre @ key @ rest) key j"
  proof
    assume "occurs_at (pre @ key @ rest) key j"
    then have eq: "take (length key) (p @ key @ rest) = key"
      using j by (simp add: occurs_at_def p_def)
    show False
    proof (cases "length key \<le> d")
      case True
      with eq lenp have "take (length key) (drop j pre) = key"
        by (simp add: p_def)
      then have "occurs_at pre key j"
        using j by (simp add: occurs_at_def)
      with assms(1) show False by blast
    next
      case False
      then have dk: "d < length key" by simp
      from eq have "take (length key) (p @ key @ rest) ! d = key ! d"
        by simp
      moreover have "take (length key) (p @ key @ rest) ! d = (p @ key @ rest) ! d"
        using dk by (rule nth_take)
      moreover have "(p @ key @ rest) ! d = hd key"
        using lenp assms(3) by (simp add: nth_append hd_conv_nth)
      ultimately have "key ! d = hd key" by simp
      with assms(2) dpos dk show False by blast
    qed
  qed
qed

lemma first_brace_append:
  assumes "CHR ''{'' \<notin> set ks" and "startswith s ''{''"
  shows "first_occurrence (ks @ s @ post) ''{'' (length ks)"
proof -
  from assms(2) obtain cs where s: "s = CHR ''{'' # cs" by (cases s) auto
  have at: "occurs_at (ks @ s @ post) ''{'' (length ks)"
    unfolding occurs_at_char by (simp add: s)
  have before: "\<forall>j < length ks. \<not> occurs_at (ks @ s @ post) ''{'' j"
  proof (intro allI impI)
    fix j assume j: "j < length ks"
    then have "(ks @ s @ post) ! j = ks ! j"
      by (simp add: nth_append)
    moreover have "ks ! j \<in> set ks" using j by simp
    ultimately have "(ks @ s @ post) ! j \<noteq> CHR ''{''" using assms(1) by metis
    then show "\<not> occurs_at (ks @ s @ post) ''{'' j"
      unfolding occurs_at_char by blast
  qed
  show ?thesis
    unfolding first_occurrence_def using at before by blast
qed

lemma least_balanced_append:
  assumes "least_balanced s (length s)"
  shows "least_balanced (s @ post) (length s)"
  using assms by (simp add: least_balanced_def)

text \<open>
  C3, as the code has it. Let \<open>s\<close> be a text that \<^verbatim>\<open>json.loads\<close> reads as the value \<open>v\<close> (the
  serialization of an object), that starts with \<open>{\<close> and whose brace depth, every brace
  counted also inside string literals, is back at zero at its last character and not
  before. Put \<open>s\<close> after the key \<open>swaggerDoc\<close> and a separator without \<open>{\<close>, in front of any
  text \<open>post\<close> and behind any text \<open>pre\<close> in which the key does not occur: the extractor
  returns \<open>v\<close>. Nested objects are covered: their braces are balanced.
\<close>

theorem extract_round_trip:
  assumes "\<forall>j. \<not> occurs_at pre ''swaggerDoc'' j"
    and "CHR ''{'' \<notin> set sep"
    and "startswith s ''{''"
    and "least_balanced s (length s)"
    and "json_loads L s = Inr v"
  shows "extract_swagger_doc_from_js L (pre @ ''swaggerDoc'' @ sep @ s @ post) = Inr v"
proof -
  define ks where "ks = ''swaggerDoc'' @ sep"
  define js where "js = pre @ ks @ s @ post"
  have js: "pre @ ''swaggerDoc'' @ sep @ s @ post = js"
    by (simp add: js_def ks_def)
  have js': "js = pre @ ''swaggerDoc'' @ (sep @ s @ post)"
    by (simp add: js_def ks_def)
  have k: "first_occurrence js ''swaggerDoc'' (length pre)"
    unfolding js' using assms(1) key_no_border by (rule first_occurrence_append) simp
  have nb: "CHR ''{'' \<notin> set ks"
    using assms(2) by (simp add: ks_def)
  have dk: "drop (length pre) js = ks @ s @ post"
    by (simp add: js_def)
  have i: "first_occurrence (drop (length pre) js) ''{'' (length ks)"
    unfolding dk using nb assms(3) by (rule first_brace_append)
  have rest: "drop (length pre + length ks) js = s @ post"
    by (simp add: js_def)
  have n: "least_balanced (drop (length pre + length ks) js) (length s)"
    unfolding rest using assms(4) by (rule least_balanced_append)
  have "extract_swagger_doc_from_js L js
           = (case json_loads L (take (length s) (drop (length pre + length ks) js)) of
                Inr v \<Rightarrow> Inr v
              | Inl e \<Rightarrow> except_json_decode_error e)"
    using k i n by (rule extract_found)
  then show ?thesis
    unfolding rest js using assms(5) by simp
qed

text \<open>
  C3 as stated fails for an object with a brace inside a string: the serialization of
  \<^verbatim>\<open>{"a": "{"}\<close> after the key is not extracted; the count of braces never returns to
  zero, whatever the parser.
\<close>

theorem extract_brace_in_string:
  \<open>\<forall>L. extract_swagger_doc_from_js L ''swaggerDoc = {"a": "{"};''
          = Inl (ValueError ''Unmatched braces while parsing swaggerDoc'')
       \<and> extract_swagger_doc_from_js L ''swaggerDoc = {"a": "{"};''
          \<noteq> Inr (JObj [(''a'', JStr ''{'')])\<close>
  by (simp add: extract_swagger_doc_from_js_def py_find_def)


theorem extract_round_trip_witness:
  \<open>\<forall>L. extract_swagger_doc_from_js
          (L\<lparr>json_loads := (\<lambda>s. if s = ''{"a": {"b": 1}}''
                                 then Inr (JObj [(''a'', JObj [(''b'', JInt 1)])])
                                 else Inl (JSONDecodeError ''Expecting value''))\<rparr>)
          ''var options = {"swaggerDoc": {"a": {"b": 1}}, "customOptions": {}};''
        = Inr (JObj [(''a'', JObj [(''b'', JInt 1)])])\<close>
proof
  fix L :: pylib
  let ?L = \<open>L\<lparr>json_loads := (\<lambda>s. if s = ''{"a": {"b": 1}}''
                                 then Inr (JObj [(''a'', JObj [(''b'', JInt 1)])])
                                 else Inl (JSONDecodeError ''Expecting value''))\<rparr>\<close>
  have h1: \<open>\<forall>j. \<not> occurs_at ''var options = {"'' ''swaggerDoc'' j\<close>
    by (simp add: find_sub_None [symmetric])
  have h2: \<open>CHR ''{'' \<notin> set ''": ''\<close>
    by simp
  have h3: \<open>startswith ''{"a": {"b": 1}}'' ''{''\<close>
    by simp
  have sc: \<open>scan_braces ''{"a": {"b": 1}}'' 0 0 = Some 14\<close>
    by simp
  have len: \<open>Suc 14 - 0 = length ''{"a": {"b": 1}}''\<close>
    by simp
  have h4: \<open>least_balanced ''{"a": {"b": 1}}'' (length ''{"a": {"b": 1}}'')\<close>
    using scan_least_balanced [OF h3 sc] unfolding len .
  have h5: \<open>json_loads ?L ''{"a": {"b": 1}}'' = Inr (JObj [(''a'', JObj [(''b'', JInt 1)])])\<close>
    by simp
  show \<open>extract_swagger_doc_from_js ?L
          ''var options = {"swaggerDoc": {"a": {"b": 1}}, "customOptions": {}};''
        = Inr (JObj [(''a'', JObj [(''b'', JInt 1)])])\<close>
    using extract_round_trip [OF h1 h2 h3 h4 h5, of \<open>'', "customOptions": {}};''\<close>]
    by simp
qed

theorem extract_swagger_doc_outcomes_witness:
  \<open>\<forall>L. extract_swagger_doc_from_js L ''var x = 1;''
          = Inl (ValueError ''No 'swaggerDoc' found in JS content'')
      \<and> extract_swagger_doc_from_js L ''swaggerDoc: 1''
          = Inl (ValueError ''Opening brace for swaggerDoc not found'')
      \<and> extract_swagger_doc_from_js L ''swaggerDoc = {"a": {''
          = Inl (ValueError ''Unmatched braces while parsing swaggerDoc'')
      \<and> extract_swagger_doc_from_js
            (L\<lparr>json_loads := (\<lambda>s. Inl (JSONDecodeError ''Expecting value''))\<rparr>)
            ''swaggerDoc = {x}; {}''
          = Inl (ValueError ''Failed to parse swaggerDoc JSON: Expecting value'')
      \<and> extract_swagger_doc_from_js (L\<lparr>json_loads := (\<lambda>s. Inl RecursionError)\<rparr>)
            ''swaggerDoc = {x}; {}''
          = Inl RecursionError
      \<and> extract_swagger_doc_from_js (L\<lparr>json_loads := (\<lambda>s. Inr (JObj []))\<rparr>)
            ''swaggerDoc = {}; {''
          = Inr (JObj [])\<close>
proof
  fix L :: pylib
  let ?Le = \<open>L\<lparr>json_loads := (\<lambda>s. Inl (JSONDecodeError ''Expecting value''))\<rparr>\<close>
  let ?Lr = \<open>L\<lparr>json_loads := (\<lambda>s. Inl RecursionError)\<rparr>\<close>
  let ?Lv = \<open>L\<lparr>json_loads := (\<lambda>s. Inr (JObj []))\<rparr>\<close>
  have a1: \<open>\<forall>j. \<not> occurs_at ''var x = 1;'' ''swaggerDoc'' j\<close>
    by (simp add: find_sub_None [symmetric])
  have r1: \<open>extract_swagger_doc_from_js L ''var x = 1;''
          = Inl (ValueError ''No 'swaggerDoc' found in JS content'')\<close>
    using extract_swagger_doc_outcomes [where js = \<open>''var x = 1;''\<close> and L = L] a1
    by blast
  have a2: \<open>first_occurrence ''swaggerDoc: 1'' ''swaggerDoc'' 0
            \<and> CHR ''{'' \<notin> set (drop 0 ''swaggerDoc: 1'')\<close>
    by (simp add: find_sub_Some [symmetric])
  have r2: \<open>extract_swagger_doc_from_js L ''swaggerDoc: 1''
          = Inl (ValueError ''Opening brace for swaggerDoc not found'')\<close>
    using extract_swagger_doc_outcomes [where js = \<open>''swaggerDoc: 1''\<close> and L = L and k = 0] a2
    by blast
  have k3: \<open>first_occurrence ''swaggerDoc = {"a": {'' ''swaggerDoc'' 0\<close>
    by (simp add: find_sub_Some [symmetric])
  have i3: \<open>first_occurrence (drop 0 ''swaggerDoc = {"a": {'') ''{'' 13\<close>
    by (simp add: find_sub_Some [symmetric])
  have \<open>startswith ''{"a": {'' ''{''\<close> and \<open>scan_braces ''{"a": {'' 0 0 = None\<close>
    by simp_all
  then have \<open>\<forall>n. 1 \<le> n \<and> n \<le> length ''{"a": {'' \<longrightarrow> brace_depth (take n ''{"a": {'') \<noteq> 0\<close>
    by (rule scan_None_unbalanced)
  then have u3: \<open>\<forall>n. 1 \<le> n \<and> n \<le> length (drop (0 + 13) ''swaggerDoc = {"a": {'')
                  \<longrightarrow> brace_depth (take n (drop (0 + 13) ''swaggerDoc = {"a": {'')) \<noteq> 0\<close>
    by simp
  have r3: \<open>extract_swagger_doc_from_js L ''swaggerDoc = {"a": {''
          = Inl (ValueError ''Unmatched braces while parsing swaggerDoc'')\<close>
    using extract_swagger_doc_outcomes
            [where js = \<open>''swaggerDoc = {"a": {''\<close> and L = L and k = 0 and i = 13] k3 i3 u3
    by blast
  have k4: \<open>first_occurrence ''swaggerDoc = {x}; {}'' ''swaggerDoc'' 0\<close>
    by (simp add: find_sub_Some [symmetric])
  have i4: \<open>first_occurrence (drop 0 ''swaggerDoc = {x}; {}'') ''{'' 13\<close>
    by (simp add: find_sub_Some [symmetric])
  have \<open>startswith ''{x}; {}'' ''{''\<close> and \<open>scan_braces ''{x}; {}'' 0 0 = Some 2\<close>
    by simp_all
  then have \<open>least_balanced ''{x}; {}'' (Suc 2 - 0)\<close>
    by (rule scan_least_balanced)
  then have b4: \<open>least_balanced (drop (0 + 13) ''swaggerDoc = {x}; {}'') 3\<close>
    by simp
  have l4: \<open>json_loads ?Le (take 3 (drop (0 + 13) ''swaggerDoc = {x}; {}'')) = Inl (JSONDecodeError ''Expecting value'')\<close>
    by simp
  have r4: \<open>extract_swagger_doc_from_js ?Le ''swaggerDoc = {x}; {}''
          = Inl (ValueError (''Failed to parse swaggerDoc JSON: '' @ ''Expecting value''))\<close>
    using extract_swagger_doc_outcomes
            [where js = \<open>''swaggerDoc = {x}; {}''\<close> and L = ?Le and k = 0 and i = 13 and n = 3
               and msg = \<open>''Expecting value''\<close>] k4 i4 b4 l4
    by blast
  have l6: \<open>json_loads ?Lr (take 3 (drop (0 + 13) ''swaggerDoc = {x}; {}'')) = Inl RecursionError
            \<and> (\<forall>m. RecursionError \<noteq> JSONDecodeError m)\<close>
    by simp
  have r6: \<open>extract_swagger_doc_from_js ?Lr ''swaggerDoc = {x}; {}'' = Inl RecursionError\<close>
    using extract_swagger_doc_outcomes
            [where js = \<open>''swaggerDoc = {x}; {}''\<close> and L = ?Lr and k = 0 and i = 13 and n = 3
               and e = RecursionError] k4 i4 b4 l6
    by blast
  have k5: \<open>first_occurrence ''swaggerDoc = {}; {'' ''swaggerDoc'' 0\<close>
    by (simp add: find_sub_Some [symmetric])
  have i5: \<open>first_occurrence (drop 0 ''swaggerDoc = {}; {'') ''{'' 13\<close>
    by (simp add: find_sub_Some [symmetric])
  have \<open>startswith ''{}; {'' ''{''\<close> and \<open>scan_braces ''{}; {'' 0 0 = Some 1\<close>
    by simp_all
  then have \<open>least_balanced ''{}; {'' (Suc 1 - 0)\<close>
    by (rule scan_least_balanced)
  then have b5: \<open>least_balanced (drop (0 + 13) ''swaggerDoc = {}; {'') 2\<close>
    by (simp add: numeral_2_eq_2)
  have l5: \<open>json_loads ?Lv (take 2 (drop (0 + 13) ''swaggerDoc = {}; {'')) = Inr (JObj [])\<close>
    by simp
  have r5: \<open>extract_swagger_doc_from_js ?Lv ''swaggerDoc = {}; {'' = Inr (JObj [])\<close>
    using extract_swagger_doc_outcomes
            [where js = \<open>''swaggerDoc = {}; {''\<close> and L = ?Lv and k = 0 and i = 13 and n = 2
               and v = \<open>JObj []\<close>] k5 i5 b5 l5
    by blast
  from r1 r2 r3 r4 r5 r6
  show \<open>extract_swagger_doc_from_js L ''var x = 1;''
          = Inl (ValueError ''No 'swaggerDoc' found in JS content'')
      \<and> extract_swagger_doc_from_js L ''swaggerDoc: 1''
          = Inl (ValueError ''Opening brace for swaggerDoc not found'')
      \<and> extract_swagger_doc_from_js L ''swaggerDoc = {"a": {''
          = Inl (ValueError ''Unmatched braces while parsing swaggerDoc'')
      \<and> extract_swagger_doc_from_js ?Le ''swaggerDoc = {x}; {}''
          = Inl (ValueError ''Failed to parse swaggerDoc JSON: Expecting value'')
      \<and> extract_swagger_doc_from_js ?Lr ''swaggerDoc = {x}; {}'' = Inl RecursionError
      \<and> extract_swagger_doc_from_js ?Lv ''swaggerDoc = {}; {''
          = Inr (JObj [])\<close>
    by simp
qed

lemma scan_braces_replicate:
  "c \<noteq> CHR ''{'' \<Longrightarrow> c \<noteq> CHR ''}'' \<Longrightarrow>
     scan_braces (replicate n c @ rest) i cnt = scan_braces rest (i + n) cnt"
  by (induction n arbitrary: i) simp_all

text \<open>
  C4 as stated fails for a text whose embedded object is valid JSON that \<^verbatim>\<open>json.loads\<close>
  does not convert: \<^verbatim>\<open>{"a": 11...1}\<close> with an integer of 4301 digits, for which it raises
  a plain \<^verbatim>\<open>ValueError\<close>. The extractor finds the object and hands it to the parser; it
  neither succeeds nor fails with one of the four errors: the exception of the parser
  leaves it unwrapped.
\<close>

theorem extract_long_integer:
  \<open>\<forall>L. (let L' = L\<lparr>json_loads :=
                     (\<lambda>t. if t = ''{"a": '' @ replicate 4301 CHR ''1'' @ ''}''
                          then Inl (ValueError ''Exceeds the limit (4300 digits) for integer string conversion: value has 4301 digits; use sys.set_int_max_str_digits() to increase the limit'')
                          else json_loads L t)\<rparr>;
            r = extract_swagger_doc_from_js L'
                  (''var options = {"swaggerDoc": {"a": '' @ replicate 4301 CHR ''1'' @ ''}};'')
        in r = Inl (ValueError ''Exceeds the limit (4300 digits) for integer string conversion: value has 4301 digits; use sys.set_int_max_str_digits() to increase the limit'')
           \<and> (\<forall>v. r \<noteq> Inr v)
           \<and> r \<noteq> Inl (ValueError ''No 'swaggerDoc' found in JS content'')
           \<and> r \<noteq> Inl (ValueError ''Opening brace for swaggerDoc not found'')
           \<and> r \<noteq> Inl (ValueError ''Unmatched braces while parsing swaggerDoc'')
           \<and> (\<forall>m. r \<noteq> Inl (ValueError (''Failed to parse swaggerDoc JSON: '' @ m))))\<close>
  by (simp add: extract_swagger_doc_from_js_def py_find_def py_slice_def scan_braces_replicate
      Let_def)

section \<open>Properties of the parameter resolver\<close>

lemma param_ok_name:
  "param_ok p \<Longrightarrow> py_getitem p ''name'' = Inr (JStr (param_name p))"
  by (auto simp: param_ok_def has_string_name_def param_name_def
      split: json.splits option.splits)

lemma param_ok_required:
  "param_ok p \<Longrightarrow> \<exists>r. py_get p ''required'' (JBool False) = Inr r \<and> truthy r = param_required p"
  by (auto simp: param_ok_def has_string_name_def param_required_def
      split: json.splits option.splits)

lemma param_ok_in:
  "param_ok p \<Longrightarrow> \<exists>loc. py_get p ''in'' (JStr ''query'') = Inr loc"
  by (auto simp: param_ok_def has_string_name_def split: json.splits option.splits)

lemma param_ok_type: "param_ok p \<Longrightarrow> \<exists>t. param_type_of p = Inr t"
  by (auto simp: param_ok_def has_string_name_def type_hint_ok_def param_type_of_def
      bind_err_def is_dict_def split: json.splits option.splits)

lemma parse_parameters_loop_ok:
  "list_all param_ok ps \<Longrightarrow>
     parse_parameters_loop ps acc = Inr (fst acc @ map arg_name ps, fold add_default ps (snd acc))"
proof (induction ps arbitrary: acc)
  case Nil
  show ?case by simp
next
  case (Cons p ps)
  then have ok: "param_ok p" and rest: "list_all param_ok ps" by simp_all
  from param_ok_required [OF ok] obtain r
    where r: "py_get p ''required'' (JBool False) = Inr r" "truthy r = param_required p"
    by blast
  from param_ok_type [OF ok] obtain t where t: "param_type_of p = Inr t" by blast
  have "parse_parameters_loop (p # ps) acc =
          parse_parameters_loop ps (fst acc @ [arg_name p], add_default p (snd acc))"
    by (simp add: bind_err_def param_ok_name [OF ok] r t arg_name_def add_default_def)
  then show ?case
    by (simp add: Cons.IH [OF rest])
qed

lemma map_of_add_default:
  "map_of (fold add_default ps d) n =
     (if \<exists>p \<in> set ps. \<not> param_required p \<and> arg_name p = n then Some JNull else map_of d n)"
proof (induction ps arbitrary: d)
  case Nil
  show ?case by simp
next
  case (Cons p ps)
  have step: "map_of (add_default p d) n =
      (if \<not> param_required p \<and> arg_name p = n then Some JNull else map_of d n)"
    by (simp add: add_default_def update_conv')
  show ?case
    by (auto simp: Cons.IH step)
qed

lemma parse_parameters_ok:
  "list_all param_ok ps \<Longrightarrow>
     parse_parameters (JArr ps) = Inr (map arg_name ps, fold add_default ps [])"
  by (simp add: parse_parameters_def bind_err_def parse_parameters_loop_ok)

lemma parse_parameters_loop_append:
  "list_all param_ok ps \<Longrightarrow>
     parse_parameters_loop (ps @ qs) acc =
       parse_parameters_loop qs (fst acc @ map arg_name ps, fold add_default ps (snd acc))"
proof (induction ps arbitrary: acc)
  case Nil
  show ?case by simp
next
  case (Cons p ps)
  then have ok: "param_ok p" and rest: "list_all param_ok ps" by simp_all
  from param_ok_required [OF ok] obtain r
    where r: "py_get p ''required'' (JBool False) = Inr r" "truthy r = param_required p"
    by blast
  from param_ok_type [OF ok] obtain t where t: "param_type_of p = Inr t" by blast
  have "parse_parameters_loop ((p # ps) @ qs) acc =
          parse_parameters_loop (ps @ qs) (fst acc @ [arg_name p], add_default p (snd acc))"
    by (simp add: bind_err_def param_ok_name [OF ok] r t arg_name_def add_default_def)
  then show ?case
    by (simp add: Cons.IH [OF rest])
qed

text \<open>
  C5, as the code has it. For every list of parameter specifications that are objects
  with a string \<open>name\<close> (and whose type hint can be computed), \<^verbatim>\<open>parse_parameters\<close>
  succeeds: the arguments are the sanitized names in order, and the defaults hold
  \<^verbatim>\<open>None\<close> for exactly the arguments of the parameters that are not required; a missing
  \<open>required\<close> counts as false, so the argument is optional. A missing \<open>type\<close> (with no
  \<open>schema\<close>) gives the type hint \<^verbatim>\<open>"str"\<close>. An entry without \<open>name\<close> is not defaulted:
  \<^verbatim>\<open>param["name"]\<close> raises \<^verbatim>\<open>KeyError\<close>.
\<close>

theorem parse_parameters_defaults:
  "(list_all param_ok ps \<longrightarrow>
      (\<exists>defaults. parse_parameters (JArr ps) = Inr (map arg_name ps, defaults)
         \<and> (\<forall>n. map_of defaults n =
               (if \<exists>p \<in> set ps. \<not> param_required p \<and> arg_name p = n then Some JNull else None))
         \<and> (\<forall>d. JObj d \<in> set ps \<and> map_of d ''required'' = None
               \<longrightarrow> map_of defaults (arg_name (JObj d)) = Some JNull)))
   \<and> (map_of d ''type'' = None \<and> map_of d ''schema'' = None
        \<longrightarrow> param_type_of (JObj d) = Inr (JStr ''str''))
   \<and> (list_all param_ok ps \<and> map_of d ''name'' = None
        \<longrightarrow> parse_parameters (JArr (ps @ JObj d # qs)) = Inl (KeyError ''name''))"
proof (intro conjI impI)
  assume ok: "list_all param_ok ps"
  let ?defaults = "fold add_default ps []"
  have "\<forall>d. JObj d \<in> set ps \<and> map_of d ''required'' = None
               \<longrightarrow> map_of ?defaults (arg_name (JObj d)) = Some JNull"
  proof (intro allI impI)
    fix d assume a: "JObj d \<in> set ps \<and> map_of d ''required'' = None"
    then have "\<not> param_required (JObj d)" by (simp add: param_required_def)
    with a show "map_of ?defaults (arg_name (JObj d)) = Some JNull"
      by (auto simp: map_of_add_default)
  qed
  then show "\<exists>defaults. parse_parameters (JArr ps) = Inr (map arg_name ps, defaults)
         \<and> (\<forall>n. map_of defaults n =
               (if \<exists>p \<in> set ps. \<not> param_required p \<and> arg_name p = n then Some JNull else None))
         \<and> (\<forall>d. JObj d \<in> set ps \<and> map_of d ''required'' = None
               \<longrightarrow> map_of defaults (arg_name (JObj d)) = Some JNull)"
    using parse_parameters_ok [OF ok] map_of_add_default [of ps "[]"] by auto
next
  assume "map_of d ''type'' = None \<and> map_of d ''schema'' = None"
  then show "param_type_of (JObj d) = Inr (JStr ''str'')"
    by (simp add: param_type_of_def bind_err_def)
next
  assume a: "list_all param_ok ps \<and> map_of d ''name'' = None"
  then show "parse_parameters (JArr (ps @ JObj d # qs)) = Inl (KeyError ''name'')"
    by (simp add: parse_parameters_def bind_err_def parse_parameters_loop_append)
qed

text \<open>
  C5 as stated fails on an entry that has no \<open>name\<close>: the resolver raises \<^verbatim>\<open>KeyError\<close>.
\<close>

theorem parse_parameters_missing_name:
  "parse_parameters (JArr [JObj [(''in'', JStr ''query''), (''required'', JBool False)]])
     = Inl (KeyError ''name'')"
  by (simp add: parse_parameters_def bind_err_def)

theorem parse_parameters_defaults_witness:
  "parse_parameters
     (JArr [JObj [(''name'', JStr ''pet-id''), (''in'', JStr ''path''), (''required'', JBool True)],
            JObj [(''name'', JStr ''limit'')]])
     = Inr ([''pet_id'', ''limit''], [(''limit'', JNull)])
   \<and> param_type_of (JObj [(''name'', JStr ''limit'')]) = Inr (JStr ''str'')
   \<and> parse_parameters
     (JArr [JObj [(''name'', JStr ''pet-id''), (''in'', JStr ''path''), (''required'', JBool True)],
            JObj [(''name'', JStr ''limit'')],
            JObj [(''in'', JStr ''query'')]])
     = Inl (KeyError ''name'')"
proof -
  let ?ps = "[JObj [(''name'', JStr ''pet-id''), (''in'', JStr ''path''), (''required'', JBool True)],
              JObj [(''name'', JStr ''limit'')]]"
  have ok: "list_all param_ok ?ps"
    by (simp add: param_ok_def has_string_name_def type_hint_ok_def)
  have names: "map arg_name ?ps = [''pet_id'', ''limit'']"
    by (simp add: arg_name_def param_name_def sanitize_name_def py_replace_def)
  from parse_parameters_defaults [of ?ps "[(''name'', JStr ''limit'')]" "[]"] ok
  obtain defaults where
    p: "parse_parameters (JArr ?ps) = Inr (map arg_name ?ps, defaults)"
    and t: "param_type_of (JObj [(''name'', JStr ''limit'')]) = Inr (JStr ''str'')"
    by auto
  have d: "parse_parameters (JArr ?ps) = Inr ([''pet_id'', ''limit''], [(''limit'', JNull)])"
    by (simp add: parse_parameters_def bind_err_def param_type_of_def
        sanitize_name_def py_replace_def)
  have e: "parse_parameters (JArr (?ps @ JObj [(''in'', JStr ''query'')] # []))
             = Inl (KeyError ''name'')"
    using parse_parameters_defaults [of ?ps "[(''in'', JStr ''query'')]" "[]"] ok by simp
  from d t e show ?thesis by simp
qed

lemma build_func_args_json:
  assumes "list_all param_ok ps" and "request_body_ok rb" and "declares_json rb"
  shows "build_func_args (JArr ps) rb
           = Inr (map arg_name ps @ [''body''], AList.update ''body'' JNull (fold add_default ps []))"
proof -
  from assms(3) obtain d where rb: "rb = JObj d"
    by (cases rb) (auto simp: declares_json_def)
  with assms(3) obtain cv where cv: "map_of d ''content'' = Some cv"
    by (cases "map_of d ''content''") (auto simp: declares_json_def)
  with assms(3) rb obtain c where cc: "cv = JObj c"
    by (cases cv) (auto simp: declares_json_def)
  from cv cc have c: "map_of d ''content'' = Some (JObj c)" by simp
  with assms(3) rb have j: "map_of c ''application/json'' \<noteq> None"
    by (simp add: declares_json_def)
  from c have "d \<noteq> []" by auto
  then show ?thesis
    using c j by (simp add: build_func_args_def rb bind_err_def parse_parameters_ok [OF assms(1)])
qed

lemma build_func_args_plain:
  assumes "list_all param_ok ps" and "request_body_ok rb" and "\<not> declares_json rb"
  shows "build_func_args (JArr ps) rb = Inr (map arg_name ps, fold add_default ps [])"
  using assms(2,3)
  by (auto simp: build_func_args_def bind_err_def parse_parameters_ok [OF assms(1)]
      request_body_ok_def declares_json_def is_dict_def split: json.splits option.splits)

lemma replace_all_char:
  "replace_all s [a] [b] = map (\<lambda>c. if c = a then b else c) s"
proof (induction s)
  case Nil
  show ?case by simp
next
  case (Cons c cs)
  have "replace_all (c # cs) [a] [b]
          = (if c = a then [b] @ replace_all cs [a] [b] else c # replace_all cs [a] [b])"
    by (subst replace_all.simps) simp
  with Cons show ?case by simp
qed

lemma sanitize_name_map:
  "sanitize_name name = map (\<lambda>c. if c = CHR ''-'' then CHR ''_'' else c) name"
  by (simp only: sanitize_name_def py_replace_def replace_all_char) simp

text \<open>
  C6. For every operation with well-formed parameters \<open>ps\<close> and request body \<open>rb\<close>, the
  arguments that \<^verbatim>\<open>build_func\<close> resolves are the names of the parameters in their order,
  each with every hyphen turned into an underscore, followed by \<open>body\<close> if and only if the
  request body is present and declares \<^verbatim>\<open>application/json\<close> content; \<open>body\<close> then has the
  default \<^verbatim>\<open>None\<close>, as has every argument of a parameter that is not required, and
  nothing else has a default.
\<close>

theorem build_func_args_order:
  assumes "list_all param_ok ps" and "request_body_ok rb"
  shows "\<exists>defaults.
           build_func_args (JArr ps) rb
             = Inr (map arg_name ps @ (if declares_json rb then [''body''] else []), defaults)
           \<and> (declares_json rb \<longrightarrow> map_of defaults ''body'' = Some JNull)
           \<and> (\<forall>n. map_of defaults n =
                 (if (declares_json rb \<and> n = ''body'')
                     \<or> (\<exists>p \<in> set ps. \<not> param_required p \<and> arg_name p = n)
                  then Some JNull else None))
           \<and> (\<forall>p. arg_name p
                  = map (\<lambda>c. if c = CHR ''-'' then CHR ''_'' else c) (param_name p))"
proof -
  have names: "\<forall>p. arg_name p = map (\<lambda>c. if c = CHR ''-'' then CHR ''_'' else c) (param_name p)"
    by (simp add: arg_name_def sanitize_name_map)
  show ?thesis
  proof (cases "declares_json rb")
    case True
    have "build_func_args (JArr ps) rb
            = Inr (map arg_name ps @ [''body''],
                   AList.update ''body'' JNull (fold add_default ps []))"
      using assms True by (rule build_func_args_json)
    moreover have "\<forall>n. map_of (AList.update ''body'' JNull (fold add_default ps [])) n =
                 (if n = ''body'' \<or> (\<exists>p \<in> set ps. \<not> param_required p \<and> arg_name p = n)
                  then Some JNull else None)"
      by (auto simp: update_conv' map_of_add_default)
    ultimately show ?thesis
      using True names by auto
  next
    case False
    have "build_func_args (JArr ps) rb = Inr (map arg_name ps, fold add_default ps [])"
      using assms False by (rule build_func_args_plain)
    moreover have "\<forall>n. map_of (fold add_default ps []) n =
                 (if \<exists>p \<in> set ps. \<not> param_required p \<and> arg_name p = n
                  then Some JNull else None)"
      by (simp add: map_of_add_default)
    ultimately show ?thesis
      using False names by auto
  qed
qed

theorem build_func_args_order_witness:
  "build_func_args
     (JArr [JObj [(''name'', JStr ''pet-id''), (''in'', JStr ''path''), (''required'', JBool True)],
            JObj [(''name'', JStr ''limit'')]])
     (JObj [(''content'', JObj [(''application/json'', JObj [])])])
     = Inr ([''pet_id'', ''limit'', ''body''], [(''limit'', JNull), (''body'', JNull)])
   \<and> build_func_args
     (JArr [JObj [(''name'', JStr ''pet-id''), (''in'', JStr ''path''), (''required'', JBool True)],
            JObj [(''name'', JStr ''limit'')]])
     JNull
     = Inr ([''pet_id'', ''limit''], [(''limit'', JNull)])"
proof -
  let ?ps = "[JObj [(''name'', JStr ''pet-id''), (''in'', JStr ''path''), (''required'', JBool True)],
              JObj [(''name'', JStr ''limit'')]]"
  let ?rb = "JObj [(''content'', JObj [(''application/json'', JObj [])])]"
  have ok: "list_all param_ok ?ps"
    by (simp add: param_ok_def has_string_name_def type_hint_ok_def)
  have rb: "request_body_ok ?rb" "declares_json ?rb"
    by (simp_all add: request_body_ok_def declares_json_def is_dict_def)
  have rn: "request_body_ok JNull" "\<not> declares_json JNull"
    by (simp_all add: request_body_ok_def declares_json_def)
  have names: "map arg_name ?ps = [''pet_id'', ''limit'']"
    by (simp add: arg_name_def param_name_def sanitize_name_def py_replace_def)
  from build_func_args_order [OF ok rb(1)] rb(2) names
  obtain d1 where a: "build_func_args (JArr ?ps) ?rb = Inr ([''pet_id'', ''limit'', ''body''], d1)"
    by auto
  from build_func_args_order [OF ok rn(1)] rn(2) names
  obtain d2 where b: "build_func_args (JArr ?ps) JNull = Inr ([''pet_id'', ''limit''], d2)"
    by auto
  have a': "build_func_args (JArr ?ps) ?rb
              = Inr ([''pet_id'', ''limit'', ''body''], [(''limit'', JNull), (''body'', JNull)])"
    using a
    by (simp add: build_func_args_def parse_parameters_def bind_err_def param_type_of_def
        sanitize_name_def py_replace_def)
  have b': "build_func_args (JArr ?ps) JNull = Inr ([''pet_id'', ''limit''], [(''limit'', JNull)])"
    using b
    by (simp add: build_func_args_def parse_parameters_def bind_err_def param_type_of_def
        sanitize_name_def py_replace_def)
  from a' b' show ?thesis by simp
qed

section \<open>Properties of a tool call\<close>



















lemmas inspect_simps =
  inspect_Parameter_def inspect_Signature_def is_implicit_def parameter_name_def iskeyword_def
  kwlist_def py_isidentifier_def xid_start_def xid_continue_def

text \<open>
  What \<^verbatim>\<open>inspect\<close> makes of the names: a name that is no identifier and a name used twice
  end \<^verbatim>\<open>build_func\<close> with a \<^verbatim>\<open>ValueError\<close>; a dot and digits are renamed.
\<close>

lemma build_func_refused_name:
  "build_func L ''/pet'' ''get''
     (JObj [(''parameters'', JArr [JObj [(''name'', JStr ''pet id''), (''required'', JBool True)]])])
     = Inl (ValueError (repr_str L ''pet id'' @ '' is not a valid parameter name''))"
  by (simp add: build_func_def inspect_simps build_func_args_def parse_parameters_def bind_err_def
        param_type_of_def sanitize_name_def py_replace_def Let_def)

lemma build_func_repeated_name:
  "build_func L ''/pet'' ''get''
     (JObj [(''parameters'', JArr [JObj [(''name'', JStr ''id''), (''in'', JStr ''path''), (''required'', JBool True)],
                                    JObj [(''name'', JStr ''id''), (''in'', JStr ''query''), (''required'', JBool True)]])])
     = Inl (ValueError (''duplicate parameter name: '' @ repr_str L ''id''))"
  by (simp add: build_func_def inspect_simps build_func_args_def parse_parameters_def bind_err_def
        param_type_of_def sanitize_name_def py_replace_def Let_def)

lemma build_func_implicit_name:
  "build_func L ''/pet'' ''get''
     (JObj [(''parameters'', JArr [JObj [(''name'', JStr ''.0''), (''required'', JBool True)]])])
     = Inr \<lparr>fn_endpoint = ''/pet'', fn_method = ''get'',
            fn_parameters = JArr [JObj [(''name'', JStr ''.0''), (''required'', JBool True)]],
            fn_request_body = JNull, fn_signature = [(''implicit0'', None)],
            fn_doc = Generated ''get'' ''/pet''\<rparr>"
  by (simp add: build_func_def inspect_simps build_func_args_def parse_parameters_def bind_err_def
        param_type_of_def sanitize_name_def py_replace_def Let_def py_isdigit_def digit_char_def)




















section \<open>Properties of the registration\<close>

text \<open>
  C9. Registering the specification with the one operation \<^verbatim>\<open>get /pet/{petId}\<close> makes one
  registration: its name is \<^verbatim>\<open>get_pet_petId\<close>, its description \<^verbatim>\<open>Find pet\<close>, and the
  signature of its function has the one parameter \<open>petId\<close>, without a default.
\<close>

theorem register_petstore_example:
  "register_spec L
     (JObj [(''paths'',
        JObj [(''/pet/{petId}'',
          JObj [(''get'',
            JObj [(''summary'', JStr ''Find pet''),
                  (''parameters'',
                     JArr [JObj [(''name'', JStr ''petId''), (''in'', JStr ''path''),
                                 (''required'', JBool True)]])])])])])
   = Inr [\<lparr>reg_name = ''get_pet_petId'',
            reg_description = Given (JStr ''Find pet''),
            reg_func =
              \<lparr>fn_endpoint = ''/pet/{petId}'', fn_method = ''get'',
                 fn_parameters =
                   JArr [JObj [(''name'', JStr ''petId''), (''in'', JStr ''path''),
                               (''required'', JBool True)]],
                 fn_request_body = JNull,
                 fn_signature = [(''petId'', None)],
                 fn_doc = Given (JStr ''Find pet'')\<rparr>\<rparr>]"
proof -
  have e: "endpoint_part ''/pet/{petId}'' = ''pet_petId''"
    by (simp add: endpoint_part_def py_replace_def py_strip_def)
  have n: "sanitize_tool_name L ''get'' ''/pet/{petId}'' = ''get_pet_petId''"
    by (simp add: sanitize_tool_name_def e allowed_char_def Let_def)
  have b: "build_func L ''/pet/{petId}'' ''get''
            (JObj [(''summary'', JStr ''Find pet''),
                  (''parameters'',
                     JArr [JObj [(''name'', JStr ''petId''), (''in'', JStr ''path''),
                                 (''required'', JBool True)]])])
          = Inr \<lparr>fn_endpoint = ''/pet/{petId}'', fn_method = ''get'',
                 fn_parameters =
                   JArr [JObj [(''name'', JStr ''petId''), (''in'', JStr ''path''),
                               (''required'', JBool True)]],
                 fn_request_body = JNull,
                 fn_signature = [(''petId'', None)],
                 fn_doc = Given (JStr ''Find pet'')\<rparr>"
    by (simp add: build_func_def inspect_simps build_func_args_def parse_parameters_def bind_err_def
        param_type_of_def sanitize_name_def py_replace_def Let_def)
  show ?thesis
    by (simp add: register_spec_def bind_err_def b n Let_def)
qed

section \<open>Properties of fetching the specification\<close>

text \<open>
  C8, as the code has it. A \<^verbatim>\<open>RequestException\<close> raised by the request (no connection, a
  timeout) with the message \<open>m\<close> becomes \<^verbatim>\<open>RuntimeError("Failed to fetch OpenAPI spec: " + m)\<close>
  (SpecFetchError), and so does the \<^verbatim>\<open>HTTPError\<close> that \<^verbatim>\<open>raise_for_status()\<close> raises for a
  status from 400 to 599. Every other status, also one that is not 2xx, is no failure:
  then the content type of the response, in lower case, decides. If it contains
  \<^verbatim>\<open>application/javascript\<close>, the body text goes to the extractor, whose value and whose
  errors are the result. Else if it contains \<^verbatim>\<open>application/json\<close>, the result is the
  parsed body, and a \<^verbatim>\<open>RequestException\<close> that parsing raises becomes the same
  \<^verbatim>\<open>RuntimeError\<close>. Else \<^verbatim>\<open>ValueError("Unsupported content-type: ...")\<close> with the lowercased
  content type is raised (UnsupportedSpecFormat): also for a content type of JavaScript
  other than \<^verbatim>\<open>application/javascript\<close>.
\<close>

theorem get_openapi_spec_branches:
  "(requests_send L spec_request = Inl e \<and> as_request_exception e = Some m \<longrightarrow>
      get_openapi_spec L = Inl (RuntimeError (''Failed to fetch OpenAPI spec: '' @ m)))
   \<and> (requests_send L spec_request = Inr resp
        \<and> 400 \<le> status_code resp \<and> status_code resp < 600 \<longrightarrow>
      get_openapi_spec L
        = Inl (RuntimeError (''Failed to fetch OpenAPI spec: '' @ http_error_text resp)))
   \<and> (requests_send L spec_request = Inr resp
        \<and> (status_code resp < 400 \<or> 600 \<le> status_code resp)
        \<and> str_contains (declared_content_type resp) ''application/javascript''
        \<and> extract_swagger_doc_from_js L (text_body resp) = Inr v \<longrightarrow>
      get_openapi_spec L = Inr v)
   \<and> (requests_send L spec_request = Inr resp
        \<and> (status_code resp < 400 \<or> 600 \<le> status_code resp)
        \<and> str_contains (declared_content_type resp) ''application/javascript''
        \<and> extract_swagger_doc_from_js L (text_body resp) = Inl e
        \<and> as_request_exception e = None \<longrightarrow>
      get_openapi_spec L = Inl e)
   \<and> (requests_send L spec_request = Inr resp
        \<and> (status_code resp < 400 \<or> 600 \<le> status_code resp)
        \<and> \<not> str_contains (declared_content_type resp) ''application/javascript''
        \<and> str_contains (declared_content_type resp) ''application/json''
        \<and> json_body resp = Inr v \<longrightarrow>
      get_openapi_spec L = Inr v)
   \<and> (requests_send L spec_request = Inr resp
        \<and> (status_code resp < 400 \<or> 600 \<le> status_code resp)
        \<and> \<not> str_contains (declared_content_type resp) ''application/javascript''
        \<and> str_contains (declared_content_type resp) ''application/json''
        \<and> json_body resp = Inl e \<and> as_request_exception e = Some m \<longrightarrow>
      get_openapi_spec L = Inl (RuntimeError (''Failed to fetch OpenAPI spec: '' @ m)))
   \<and> (requests_send L spec_request = Inr resp
        \<and> (status_code resp < 400 \<or> 600 \<le> status_code resp)
        \<and> \<not> str_contains (declared_content_type resp) ''application/javascript''
        \<and> \<not> str_contains (declared_content_type resp) ''application/json'' \<longrightarrow>
      get_openapi_spec L
        = Inl (ValueError (''Unsupported content-type: '' @ declared_content_type resp)))"
proof (intro conjI impI)
  assume "requests_send L spec_request = Inl e \<and> as_request_exception e = Some m"
  then show "get_openapi_spec L = Inl (RuntimeError (''Failed to fetch OpenAPI spec: '' @ m))"
    by (simp add: get_openapi_spec_def spec_request_def wrap_request_exception_def)
next
  assume "requests_send L spec_request = Inr resp
        \<and> 400 \<le> status_code resp \<and> status_code resp < 600"
  then show "get_openapi_spec L
        = Inl (RuntimeError (''Failed to fetch OpenAPI spec: '' @ http_error_text resp))"
    by (simp add: get_openapi_spec_def spec_request_def wrap_request_exception_def
        raise_for_status_def)
next
  assume a: "requests_send L spec_request = Inr resp
        \<and> (status_code resp < 400 \<or> 600 \<le> status_code resp)
        \<and> str_contains (declared_content_type resp) ''application/javascript''
        \<and> extract_swagger_doc_from_js L (text_body resp) = Inr v"
  then have "raise_for_status resp = None"
    by (auto simp: raise_for_status_def)
  with a show "get_openapi_spec L = Inr v"
    by (simp add: get_openapi_spec_def spec_request_def declared_content_type_def
        wrap_request_exception_def)
next
  assume a: "requests_send L spec_request = Inr resp
        \<and> (status_code resp < 400 \<or> 600 \<le> status_code resp)
        \<and> str_contains (declared_content_type resp) ''application/javascript''
        \<and> extract_swagger_doc_from_js L (text_body resp) = Inl e
        \<and> as_request_exception e = None"
  then have "raise_for_status resp = None"
    by (auto simp: raise_for_status_def)
  with a show "get_openapi_spec L = Inl e"
    by (simp add: get_openapi_spec_def spec_request_def declared_content_type_def
        wrap_request_exception_def)
next
  assume a: "requests_send L spec_request = Inr resp
        \<and> (status_code resp < 400 \<or> 600 \<le> status_code resp)
        \<and> \<not> str_contains (declared_content_type resp) ''application/javascript''
        \<and> str_contains (declared_content_type resp) ''application/json''
        \<and> json_body resp = Inr v"
  then have "raise_for_status resp = None"
    by (auto simp: raise_for_status_def)
  with a show "get_openapi_spec L = Inr v"
    by (simp add: get_openapi_spec_def spec_request_def declared_content_type_def
        wrap_request_exception_def)
next
  assume a: "requests_send L spec_request = Inr resp
        \<and> (status_code resp < 400 \<or> 600 \<le> status_code resp)
        \<and> \<not> str_contains (declared_content_type resp) ''application/javascript''
        \<and> str_contains (declared_content_type resp) ''application/json''
        \<and> json_body resp = Inl e \<and> as_request_exception e = Some m"
  then have "raise_for_status resp = None"
    by (auto simp: raise_for_status_def)
  with a show "get_openapi_spec L = Inl (RuntimeError (''Failed to fetch OpenAPI spec: '' @ m))"
    by (simp add: get_openapi_spec_def spec_request_def declared_content_type_def
        wrap_request_exception_def)
next
  assume a: "requests_send L spec_request = Inr resp
        \<and> (status_code resp < 400 \<or> 600 \<le> status_code resp)
        \<and> \<not> str_contains (declared_content_type resp) ''application/javascript''
        \<and> \<not> str_contains (declared_content_type resp) ''application/json''"
  then have "raise_for_status resp = None"
    by (auto simp: raise_for_status_def)
  with a show "get_openapi_spec L
        = Inl (ValueError (''Unsupported content-type: '' @ declared_content_type resp))"
    by (simp add: get_openapi_spec_def spec_request_def declared_content_type_def
        wrap_request_exception_def)
qed

lemma lower_js:
  "py_lower ''Application/JavaScript; charset=UTF-8'' = ''application/javascript; charset=utf-8''"
  by (simp add: py_lower_def lower_char_def Let_def char_of_def bit_0 bit_Suc)

lemma lower_unchanged:
  "py_lower ''application/json'' = ''application/json''"
  "py_lower ''text/html'' = ''text/html''"
  "py_lower ''text/javascript'' = ''text/javascript''"
  by (simp_all add: py_lower_def lower_char_def Let_def)

theorem get_openapi_spec_branches_witness:
  "\<forall>L.
     get_openapi_spec (L\<lparr>requests_send := (\<lambda>c. Inl (RequestException ''timed out''))\<rparr>)
       = Inl (RuntimeError ''Failed to fetch OpenAPI spec: timed out'')
   \<and> get_openapi_spec
       (L\<lparr>requests_send := (\<lambda>c. Inr \<lparr>status_code = 404,
                                        http_error_text = ''404 Client Error'',
                                        content_type = Some ''text/html'', text_body = [],
                                        json_body = Inl (RequestsJSONDecodeError [])\<rparr>)\<rparr>)
       = Inl (RuntimeError ''Failed to fetch OpenAPI spec: 404 Client Error'')
   \<and> get_openapi_spec
       (L\<lparr>requests_send := (\<lambda>c. Inr \<lparr>status_code = 200, http_error_text = [],
                                        content_type = Some ''Application/JavaScript; charset=UTF-8'',
                                        text_body = ''swaggerDoc = {}'',
                                        json_body = Inl (RequestsJSONDecodeError [])\<rparr>),
          json_loads := (\<lambda>t. Inr (JObj []))\<rparr>)
       = Inr (JObj [])
   \<and> get_openapi_spec
       (L\<lparr>requests_send := (\<lambda>c. Inr \<lparr>status_code = 200, http_error_text = [],
                                        content_type = Some ''Application/JavaScript; charset=UTF-8'',
                                        text_body = ''var x = 1;'',
                                        json_body = Inl (RequestsJSONDecodeError [])\<rparr>)\<rparr>)
       = Inl (ValueError ''No 'swaggerDoc' found in JS content'')
   \<and> get_openapi_spec
       (L\<lparr>requests_send := (\<lambda>c. Inr \<lparr>status_code = 200, http_error_text = [],
                                        content_type = Some ''application/json'',
                                        text_body = ''{}'',
                                        json_body = Inr (JObj [])\<rparr>)\<rparr>)
       = Inr (JObj [])
   \<and> get_openapi_spec
       (L\<lparr>requests_send := (\<lambda>c. Inr \<lparr>status_code = 200, http_error_text = [],
                                        content_type = Some ''application/json'',
                                        text_body = ''{'',
                                        json_body = Inl (RequestsJSONDecodeError ''Expecting value'')\<rparr>)\<rparr>)
       = Inl (RuntimeError ''Failed to fetch OpenAPI spec: Expecting value'')
   \<and> get_openapi_spec
       (L\<lparr>requests_send := (\<lambda>c. Inr \<lparr>status_code = 200, http_error_text = [],
                                        content_type = Some ''text/html'',
                                        text_body = [],
                                        json_body = Inl (RequestsJSONDecodeError [])\<rparr>)\<rparr>)
       = Inl (ValueError ''Unsupported content-type: text/html'')"
proof
  fix L :: pylib
  let ?r2 = "\<lparr>status_code = 404, http_error_text = ''404 Client Error'',
             content_type = Some ''text/html'', text_body = [],
             json_body = Inl (RequestsJSONDecodeError [])\<rparr>"
  let ?r3 = "\<lparr>status_code = 200, http_error_text = [],
             content_type = Some ''Application/JavaScript; charset=UTF-8'',
             text_body = ''swaggerDoc = {}'',
             json_body = Inl (RequestsJSONDecodeError [])\<rparr>"
  let ?r4 = "\<lparr>status_code = 200, http_error_text = [],
             content_type = Some ''Application/JavaScript; charset=UTF-8'',
             text_body = ''var x = 1;'',
             json_body = Inl (RequestsJSONDecodeError [])\<rparr>"
  let ?r5 = "\<lparr>status_code = 200, http_error_text = [],
             content_type = Some ''application/json'',
             text_body = ''{}'', json_body = Inr (JObj [])\<rparr>"
  let ?r6 = "\<lparr>status_code = 200, http_error_text = [],
             content_type = Some ''application/json'',
             text_body = ''{'', json_body = Inl (RequestsJSONDecodeError ''Expecting value'')\<rparr>"
  let ?r7 = "\<lparr>status_code = 200, http_error_text = [],
             content_type = Some ''text/html'', text_body = [],
             json_body = Inl (RequestsJSONDecodeError [])\<rparr>"
  let ?L1 = "L\<lparr>requests_send := (\<lambda>c. Inl (RequestException ''timed out''))\<rparr>"
  let ?L2 = "L\<lparr>requests_send := (\<lambda>c. Inr ?r2)\<rparr>"
  let ?L3 = "L\<lparr>requests_send := (\<lambda>c. Inr ?r3), json_loads := (\<lambda>t. Inr (JObj []))\<rparr>"
  let ?L4 = "L\<lparr>requests_send := (\<lambda>c. Inr ?r4)\<rparr>"
  let ?L5 = "L\<lparr>requests_send := (\<lambda>c. Inr ?r5)\<rparr>"
  let ?L6 = "L\<lparr>requests_send := (\<lambda>c. Inr ?r6)\<rparr>"
  let ?L7 = "L\<lparr>requests_send := (\<lambda>c. Inr ?r7)\<rparr>"
  have g1: "get_openapi_spec ?L1 = Inl (RuntimeError (''Failed to fetch OpenAPI spec: '' @ ''timed out''))"
    using get_openapi_spec_branches
            [where L = ?L1 and e = "RequestException ''timed out''" and m = "''timed out''"]
    by simp
  have g2: "get_openapi_spec ?L2
              = Inl (RuntimeError (''Failed to fetch OpenAPI spec: '' @ http_error_text ?r2))"
    using get_openapi_spec_branches [where L = ?L2 and resp = ?r2]
    by simp
  have e3: "extract_swagger_doc_from_js ?L3 (text_body ?r3) = Inr (JObj [])"
    by (simp add: extract_swagger_doc_from_js_def py_find_def py_slice_def)
  have g3: "get_openapi_spec ?L3 = Inr (JObj [])"
    using get_openapi_spec_branches [where L = ?L3 and resp = ?r3 and v = "JObj []"] e3
    by (simp add: declared_content_type_def lower_js str_contains_def)
  have e4: "extract_swagger_doc_from_js ?L4 (text_body ?r4)
              = Inl (ValueError ''No 'swaggerDoc' found in JS content'')"
    by (simp add: extract_swagger_doc_from_js_def py_find_def)
  have g4: "get_openapi_spec ?L4 = Inl (ValueError ''No 'swaggerDoc' found in JS content'')"
    using get_openapi_spec_branches
            [where L = ?L4 and resp = ?r4
               and e = "ValueError ''No 'swaggerDoc' found in JS content''"] e4
    by (simp add: declared_content_type_def lower_js str_contains_def)
  have g5: "get_openapi_spec ?L5 = Inr (JObj [])"
    using get_openapi_spec_branches [where L = ?L5 and resp = ?r5 and v = "JObj []"]
    by (simp add: declared_content_type_def lower_unchanged str_contains_def)
  have g6: "get_openapi_spec ?L6
              = Inl (RuntimeError (''Failed to fetch OpenAPI spec: '' @ ''Expecting value''))"
    using get_openapi_spec_branches
            [where L = ?L6 and resp = ?r6 and e = "RequestsJSONDecodeError ''Expecting value''"
               and m = "''Expecting value''"]
    by (simp add: declared_content_type_def lower_unchanged str_contains_def)
  have g7: "get_openapi_spec ?L7
              = Inl (ValueError (''Unsupported content-type: '' @ declared_content_type ?r7))"
    using get_openapi_spec_branches [where L = ?L7 and resp = ?r7]
    by (simp add: declared_content_type_def lower_unchanged str_contains_def)
  from g1 g2 g3 g4 g5 g6 g7
  show "get_openapi_spec ?L1 = Inl (RuntimeError ''Failed to fetch OpenAPI spec: timed out'')
   \<and> get_openapi_spec ?L2 = Inl (RuntimeError ''Failed to fetch OpenAPI spec: 404 Client Error'')
   \<and> get_openapi_spec ?L3 = Inr (JObj [])
   \<and> get_openapi_spec ?L4 = Inl (ValueError ''No 'swaggerDoc' found in JS content'')
   \<and> get_openapi_spec ?L5 = Inr (JObj [])
   \<and> get_openapi_spec ?L6 = Inl (RuntimeError ''Failed to fetch OpenAPI spec: Expecting value'')
   \<and> get_openapi_spec ?L7 = Inl (ValueError ''Unsupported content-type: text/html'')"
    by (simp add: declared_content_type_def lower_unchanged)
qed

text \<open>
  C8 as stated fails twice. \<^verbatim>\<open>text/javascript\<close> is a JavaScript content type, and a
  response of that type is not routed to the extractor: it is refused as unsupported,
  though its body holds the document. And a status that is not 2xx is no failure unless
  it is 400 to 599: the response \<open>300\<close> with a JSON body is parsed and returned.
\<close>

theorem get_openapi_spec_text_javascript:
  "\<forall>L.
     get_openapi_spec
       (L\<lparr>requests_send := (\<lambda>c. Inr \<lparr>status_code = 200, http_error_text = [],
                                        content_type = Some ''text/javascript'',
                                        text_body = ''var options = {swaggerDoc: {}};'',
                                        json_body = Inl (RequestsJSONDecodeError [])\<rparr>)\<rparr>)
       = Inl (ValueError ''Unsupported content-type: text/javascript'')
   \<and> get_openapi_spec
       (L\<lparr>requests_send := (\<lambda>c. Inr \<lparr>status_code = 300,
                                        http_error_text = [],
                                        content_type = Some ''application/json'',
                                        text_body = ''{}'',
                                        json_body = Inr (JObj [])\<rparr>)\<rparr>)
       = Inr (JObj [])"
  by (simp add: get_openapi_spec_def spec_request_def raise_for_status_def lower_unchanged
      str_contains_def wrap_request_exception_def)

end
